theory Spec2Isabelle
  imports Complex_Main
begin

section \<open>Audio comparison pipeline of compare-audio.py\<close>

text \<open>
  Samples and every derived statistic are Python/numpy floats; they are modelled as
  \<^typ>\<open>real\<close>, so rounding, overflow and NaN are outside the model. Sample counts and
  sample rates are natural numbers, and \<open>int(x)\<close> of a non-negative float is the floor
  of the exact value, except in \<open>resample_if_needed\<close>, where the two float64 roundings
  in front of \<open>int\<close> are modelled because they decide the result. A raised Python
  exception is the left summand of the result.
  Routines of numpy and scipy are modelled by what their documentation says they
  compute; \<open>scipy.signal.resample\<close> and \<open>scipy.signal.find_peaks\<close> are parameters.
\<close>

datatype error = ValueError | ZeroDivisionError | RuntimeError

subsection \<open>numpy helpers\<close>

text \<open>\<open>np.max\<close> raises ValueError on a zero-size array.\<close>

fun np_max :: "real list \<Rightarrow> error + real" where
  "np_max [] = Inl ValueError"
| "np_max (x # xs) = Inr (fold max xs x)"

text \<open>The slice \<open>xs[a:b]\<close> for \<open>0 \<le> a\<close>, \<open>0 \<le> b\<close>; numpy clips it to the array.\<close>

definition slice :: "'a list \<Rightarrow> nat \<Rightarrow> nat \<Rightarrow> 'a list" where
  "slice xs a b = take (b - a) (drop a xs)"

text \<open>\<open>np.where(cond)[0]\<close>: the indices at which the condition holds, ascending.\<close>

definition np_where :: "('a \<Rightarrow> bool) \<Rightarrow> 'a list \<Rightarrow> nat list" where
  "np_where P xs = filter (\<lambda>i. P (xs ! i)) [0..<length xs]"

text \<open>\<open>np.argmax\<close>: the first index of the maximum (of a non-empty array).\<close>

definition np_argmax :: "real list \<Rightarrow> nat" where
  "np_argmax xs = (let m = fold max (tl xs) (hd xs) in length (takeWhile (\<lambda>x. x \<noteq> m) xs))"

text \<open>Sequencing of computations that may raise.\<close>

definition and_then :: "error + 'a \<Rightarrow> ('a \<Rightarrow> error + 'b) \<Rightarrow> error + 'b" where
  "and_then m f = (case m of Inl e \<Rightarrow> Inl e | Inr x \<Rightarrow> f x)"

text \<open>The linear value \<open>10 ** (db / 20)\<close> of a level in dB.\<close>

definition db_to_linear :: "real \<Rightarrow> real" where
  "db_to_linear db = 10 powr (db / 20)"

text \<open>\<open>np.mean\<close>; on an empty array numpy returns NaN with a warning, which has no
  counterpart here: every caller below reaches it on a non-empty array or after an
  earlier exception.\<close>

definition np_mean :: "real list \<Rightarrow> real" where
  "np_mean xs = sum_list xs / real (length xs)"

text \<open>\<open>np.percentile(xs, q)\<close> with numpy's default linear interpolation between the
  two order statistics around the virtual index \<open>q / 100 * (n - 1)\<close>; only called on
  lists of at least two values.\<close>

definition np_percentile :: "real list \<Rightarrow> real \<Rightarrow> real" where
  "np_percentile xs q =
     (let s = sort xs;
          h = q / 100 * real (length xs - 1);
          lo = nat \<lfloor>h\<rfloor>;
          hi = min (lo + 1) (length xs - 1)
      in s ! lo + (h - real lo) * (s ! hi - s ! lo))"

subsection \<open>Resampler: \<open>resample_if_needed\<close>\<close>

text \<open>
  The nearest float64 of a real number, ties to the even significand: a number with
  \<open>2 ^ e \<le> |x| < 2 ^ (e + 1)\<close> is rounded to a multiple of \<open>2 ^ (e - 52)\<close>. This is
  IEEE 754 double precision for magnitudes in the normal range, from \<open>2 ^ -1022\<close> up to
  \<open>2 ^ 1024\<close>; quotients and products of sample counts and sample rates stay in it.
\<close>

definition round_half_even :: "real \<Rightarrow> int" where
  "round_half_even y =
     (let f = \<lfloor>y\<rfloor>; d = y - real_of_int f
      in if d < 1 / 2 then f else if d > 1 / 2 then f + 1 else if even f then f else f + 1)"

definition float64_at :: "int \<Rightarrow> real \<Rightarrow> real" where
  "float64_at e x =
     (let q = 2 powr (real_of_int e - 52) in q * real_of_int (round_half_even (x / q)))"

definition float64 :: "real \<Rightarrow> real" where
  "float64 x = (if x = 0 then 0 else sgn x * float64_at \<lfloor>log 2 \<bar>x\<bar>\<rfloor> \<bar>x\<bar>)"

text \<open>
  The new length: \<open>len(data) / sr_orig\<close> is Python's true division of two integers, the
  float64 nearest to the quotient; \<open>duration * sr_target\<close> converts the integer rate to
  float64 and rounds the product to float64; \<open>int\<close> truncates it.
\<close>

definition resample_new_length :: "nat \<Rightarrow> nat \<Rightarrow> nat \<Rightarrow> nat" where
  "resample_new_length n sr_orig sr_target =
     (let duration = float64 (real n / real sr_orig)
      in nat \<lfloor>float64 (duration * float64 (real sr_target))\<rfloor>)"

text \<open>
  \<open>scipy.signal.resample\<close> is a library routine outside the repository; it is the
  parameter \<open>resample\<close>, applied to the data and the requested sample count.
\<close>

definition resample_if_needed ::
  "(real list \<Rightarrow> nat \<Rightarrow> error + real list) \<Rightarrow> real list \<Rightarrow> nat \<Rightarrow> nat \<Rightarrow> error + real list" where
  "resample_if_needed resample data sr_orig sr_target =
     (if sr_orig = sr_target then Inr data
      else if sr_orig = 0 then Inl ZeroDivisionError
      else let new_length = resample_new_length (length data) sr_orig sr_target
           in resample data new_length)"

subsection \<open>AlignmentEngine\<close>

definition find_first_transient :: "real list \<Rightarrow> nat \<Rightarrow> real \<Rightarrow> nat" where
  "find_first_transient data sample_rate threshold_db =
     (let threshold_linear = db_to_linear threshold_db;
          above = np_where (\<lambda>x. x > threshold_linear) (map abs data)
      in if length above > 0 then hd above else 0)"

text \<open>The peak over the first second, or over the whole buffer when it is no longer
  than one second.\<close>

definition transient_peak :: "real list \<Rightarrow> nat \<Rightarrow> error + real" where
  "transient_peak x sample_rate =
     (if length x > sample_rate then np_max (map abs (take sample_rate x))
      else np_max (map abs x))"

text \<open>The keyword argument \<open>threshold_db\<close> has the default \<open>-40\<close>; \<open>None\<close> is a call
  that omits it.\<close>

definition find_alignment_offset_by_transient ::
  "real list \<Rightarrow> real list \<Rightarrow> nat \<Rightarrow> real option \<Rightarrow> error + (int \<times> real)" where
  "find_alignment_offset_by_transient ref target sample_rate threshold_db_arg =
     (let threshold_db = (case threshold_db_arg of None \<Rightarrow> - 40 | Some d \<Rightarrow> d);
          first_ref = find_first_transient ref sample_rate threshold_db;
          first_target = find_first_transient target sample_rate threshold_db;
          offset = int first_target - int first_ref;
          threshold_linear = db_to_linear threshold_db
      in case transient_peak ref sample_rate of
           Inl e \<Rightarrow> Inl e
         | Inr ref_peak \<Rightarrow>
             (case transient_peak target sample_rate of
                Inl e \<Rightarrow> Inl e
              | Inr target_peak \<Rightarrow>
                  Inr (offset,
                       min (min (ref_peak / threshold_linear) (target_peak / threshold_linear)) 10
                         / 10)))"

subsection \<open>AmplitudeAnalyzer: \<open>calculate_amplitude_stats\<close>\<close>

record AmplitudeStats =
  peak_linear :: real
  peak_db :: real
  rms_linear :: real
  rms_db :: real
  crest_factor_db :: real
  dynamic_range_db :: real
  dc_offset :: real

text \<open>The loop over the 100 ms windows: the RMS of each whole window, kept when it
  exceeds the linear silence threshold.\<close>

definition window_rms_list :: "real list \<Rightarrow> nat \<Rightarrow> nat \<Rightarrow> real \<Rightarrow> real list" where
  "window_rms_list data window_size num_windows silence_threshold_db =
     filter (\<lambda>w_rms. w_rms > db_to_linear silence_threshold_db)
       (map (\<lambda>i. sqrt (np_mean (map (\<lambda>x. x\<^sup>2) (slice data (i * window_size) ((i + 1) * window_size)))))
          [0..<num_windows])"

definition dynamic_range_of :: "real list \<Rightarrow> nat \<Rightarrow> real \<Rightarrow> error + real" where
  "dynamic_range_of data sample_rate silence_threshold_db =
     (let window_size = nat \<lfloor>0.1 * real sample_rate\<rfloor>
      in if length data \<ge> window_size then
           if window_size = 0 then Inl ZeroDivisionError
           else let num_windows = length data div window_size;
                    window_rms = window_rms_list data window_size num_windows silence_threshold_db
                in if length window_rms \<ge> 2 then
                     let loud = np_percentile window_rms 90;
                         quiet = np_percentile window_rms 10
                     in Inr (20 * log 10 (max loud (1 / 10 ^ 10) / max quiet (1 / 10 ^ 10)))
                   else Inr 0
         else Inr 0)"

definition calculate_amplitude_stats :: "real list \<Rightarrow> nat \<Rightarrow> real \<Rightarrow> error + AmplitudeStats" where
  "calculate_amplitude_stats data sample_rate silence_threshold_db =
     (case np_max (map abs data) of
        Inl e \<Rightarrow> Inl e
      | Inr peak \<Rightarrow>
          let peak_db' = 20 * log 10 (max peak (1 / 10 ^ 10));
              rms = sqrt (np_mean (map (\<lambda>x. x\<^sup>2) data));
              rms_db' = 20 * log 10 (max rms (1 / 10 ^ 10));
              crest_db = peak_db' - rms_db';
              dc_offset' = np_mean data
          in case dynamic_range_of data sample_rate silence_threshold_db of
               Inl e \<Rightarrow> Inl e
             | Inr dynamic_range \<Rightarrow>
                 Inr \<lparr>peak_linear = peak, peak_db = peak_db', rms_linear = rms,
                      rms_db = rms_db', crest_factor_db = crest_db,
                      dynamic_range_db = dynamic_range, dc_offset = dc_offset'\<rparr>)"

subsection \<open>SpectralAnalyzer: \<open>calculate_spectral_stats\<close>\<close>

record SpectralStats =
  centroid_hz :: real
  bandwidth_hz :: real
  rolloff_hz :: real
  flatness :: real
  dominant_freqs :: "real list"

text \<open>\<open>np.hanning(M)\<close>.\<close>

definition np_hanning :: "nat \<Rightarrow> real list" where
  "np_hanning M =
     (if M < 1 then [] else if M = 1 then [1]
      else map (\<lambda>n. 0.5 - 0.5 * cos (2 * pi * real n / real (M - 1))) [0..<M])"

text \<open>\<open>scipy.fft.rfft\<close>: the bins \<open>0 .. n div 2\<close> of the discrete Fourier transform of a
  real sequence of length \<open>n\<close>; scipy raises ValueError for \<open>n = 0\<close>.\<close>

definition rfft :: "real list \<Rightarrow> error + complex list" where
  "rfft x =
     (let n = length x
      in if n = 0 then Inl ValueError
         else Inr (map (\<lambda>k. \<Sum>m\<leftarrow>[0..<n]. of_real (x ! m) * cis (- (2 * pi * real k * real m / real n)))
                     [0..<n div 2 + 1]))"

text \<open>\<open>scipy.fft.rfftfreq(n, d)\<close>.\<close>

definition rfftfreq :: "nat \<Rightarrow> real \<Rightarrow> real list" where
  "rfftfreq n d = map (\<lambda>k. real k * (1 / (real n * d))) [0..<n div 2 + 1]"

text \<open>\<open>np.cumsum\<close> and \<open>np.searchsorted\<close> (left side, on an ascending array).\<close>

fun np_cumsum_from :: "real \<Rightarrow> real list \<Rightarrow> real list" where
  "np_cumsum_from acc [] = []"
| "np_cumsum_from acc (x # xs) = (acc + x) # np_cumsum_from (acc + x) xs"

definition np_cumsum :: "real list \<Rightarrow> real list" where
  "np_cumsum xs = np_cumsum_from 0 xs"

definition np_searchsorted :: "real list \<Rightarrow> real \<Rightarrow> nat" where
  "np_searchsorted a v = length (takeWhile (\<lambda>c. c < v) a)"

text \<open>\<open>np.argsort\<close>, ascending; the order numpy gives to equal keys is not specified,
  here they keep their index order.\<close>

definition np_argsort :: "real list \<Rightarrow> nat list" where
  "np_argsort xs = sort_key (\<lambda>i. xs ! i) [0..<length xs]"

text \<open>The centred segment of at most two seconds, Hann-windowed.\<close>

definition spectral_windowed :: "real list \<Rightarrow> nat \<Rightarrow> real list" where
  "spectral_windowed data sample_rate =
     (let segment_len = min (length data) (sample_rate * 2);
          start = (length data - segment_len) div 2;
          segment = slice data start (start + segment_len);
          window = np_hanning (length segment)
      in map2 (*) segment window)"

text \<open>The magnitude spectrum without its DC bin.\<close>

definition spectral_spectrum :: "real list \<Rightarrow> nat \<Rightarrow> error + real list" where
  "spectral_spectrum data sample_rate =
     and_then (rfft (spectral_windowed data sample_rate)) (\<lambda>bins. Inr (tl (map cmod bins)))"

definition spectral_total_power :: "real list \<Rightarrow> nat \<Rightarrow> error + real" where
  "spectral_total_power data sample_rate =
     and_then (spectral_spectrum data sample_rate)
       (\<lambda>spectrum. Inr (sum_list (map (\<lambda>s. s\<^sup>2) spectrum)))"

text \<open>\<open>scipy.signal.find_peaks\<close> is a library routine outside the repository; it is the
  parameter \<open>find_peaks\<close>, applied to the array, the \<open>height\<close> and the optional
  \<open>distance\<close>, and returns the peak indices in ascending order.\<close>

type_synonym peak_finder = "real list \<Rightarrow> real \<Rightarrow> nat option \<Rightarrow> nat list"

definition calculate_spectral_stats :: "peak_finder \<Rightarrow> real list \<Rightarrow> nat \<Rightarrow> error + SpectralStats" where
  "calculate_spectral_stats find_peaks data sample_rate =
     and_then (spectral_spectrum data sample_rate) (\<lambda>spectrum.
       let windowed = spectral_windowed data sample_rate;
           freqs = tl (rfftfreq (length windowed) (1 / real sample_rate));
           power = map (\<lambda>s. s\<^sup>2) spectrum;
           total_power = sum_list power
       in if total_power < 1 / 10 ^ 10 then
            Inr \<lparr>centroid_hz = 0, bandwidth_hz = 0, rolloff_hz = 0, flatness = 0,
                 dominant_freqs = []\<rparr>
          else
            let centroid = sum_list (map2 (*) freqs power) / total_power;
                bandwidth =
                  sqrt (sum_list (map2 (*) (map (\<lambda>f. (f - centroid)\<^sup>2) freqs) power) / total_power);
                cumsum = np_cumsum power;
                rolloff_idx = np_searchsorted cumsum (0.85 * total_power);
                rolloff = freqs ! min rolloff_idx (length freqs - 1);
                log_spectrum = map (\<lambda>s. ln (s + 1 / 10 ^ 10)) spectrum;
                geometric_mean = exp (np_mean log_spectrum);
                arithmetic_mean = np_mean spectrum;
                flatness' = geometric_mean / (arithmetic_mean + 1 / 10 ^ 10)
            in and_then (np_max spectrum) (\<lambda>spectrum_max.
                 let peak_indices = find_peaks spectrum (spectrum_max * 0.1) None;
                     peak_freqs = map (\<lambda>i. freqs ! i) peak_indices;
                     peak_mags = map (\<lambda>i. spectrum ! i) peak_indices;
                     sorted_idx = take 5 (rev (np_argsort peak_mags));
                     dominant_freqs' =
                       map (\<lambda>i. peak_freqs ! i) (filter (\<lambda>i. i < length peak_freqs) sorted_idx)
                 in Inr \<lparr>centroid_hz = centroid, bandwidth_hz = bandwidth, rolloff_hz = rolloff,
                         flatness = flatness', dominant_freqs = dominant_freqs'\<rparr>))"

text \<open>The statistics returned when the total power is below \<open>1e-10\<close>.\<close>

definition zero_spectral_stats :: SpectralStats where
  "zero_spectral_stats =
     \<lparr>centroid_hz = 0, bandwidth_hz = 0, rolloff_hz = 0, flatness = 0, dominant_freqs = []\<rparr>"

subsection \<open>EnvelopeExtractor\<close>

text \<open>
  \<open>scipy.ndimage.maximum_filter1d\<close> and \<open>uniform_filter1d\<close> with their defaults
  (\<open>mode='reflect'\<close>, \<open>origin=0\<close>): the window of \<open>size\<close> samples around position \<open>i\<close>
  starts at \<open>i - size div 2\<close>, and an index outside the array is reflected at the edge
  (\<open>d c b a | a b c d | d c b a\<close>). Both raise RuntimeError for a size below 1.
\<close>

definition reflect_index :: "nat \<Rightarrow> int \<Rightarrow> nat" where
  "reflect_index n j =
     (let m = j mod (2 * int n) in if m < int n then nat m else nat (2 * int n - 1 - m))"

definition filter_window :: "real list \<Rightarrow> nat \<Rightarrow> nat \<Rightarrow> real list" where
  "filter_window x size' i =
     map (\<lambda>j. x ! reflect_index (length x) (int i - int (size' div 2) + int j)) [0..<size']"

definition maximum_filter1d :: "real list \<Rightarrow> nat \<Rightarrow> error + real list" where
  "maximum_filter1d x size' =
     (if size' < 1 then Inl RuntimeError
      else Inr (map (\<lambda>i. let w = filter_window x size' i in fold max (tl w) (hd w))
                  [0..<length x]))"

definition uniform_filter1d :: "real list \<Rightarrow> nat \<Rightarrow> error + real list" where
  "uniform_filter1d x size' =
     (if size' < 1 then Inl RuntimeError
      else Inr (map (\<lambda>i. sum_list (filter_window x size' i) / real size') [0..<length x]))"

text \<open>The strided slice \<open>xs[::step]\<close>; a step of 0 raises ValueError.\<close>

definition stride :: "'a list \<Rightarrow> nat \<Rightarrow> error + 'a list" where
  "stride xs step =
     (if step = 0 then Inl ValueError
      else Inr (map (\<lambda>k. xs ! (k * step)) [0..<(length xs + step - 1) div step]))"

text \<open>The keyword argument \<open>window_ms\<close> has the default \<open>10\<close>; \<open>None\<close> is a call that
  omits it.\<close>

definition calculate_envelope :: "real list \<Rightarrow> nat \<Rightarrow> real option \<Rightarrow> error + real list" where
  "calculate_envelope data sample_rate window_ms_arg =
     (let window_ms = (case window_ms_arg of None \<Rightarrow> 10 | Some w \<Rightarrow> w);
          window_samples = nat \<lfloor>window_ms * real sample_rate / 1000\<rfloor>;
          abs_data = map abs data
      in and_then (maximum_filter1d abs_data window_samples) (\<lambda>envelope.
         and_then (uniform_filter1d envelope window_samples) (\<lambda>envelope.
           let downsample = window_samples in stride envelope downsample)))"

record EnvelopeStats =
  attack_time_ms :: real
  decay_time_ms :: real
  sustain_level :: real
  release_time_ms :: real

text \<open>The scan for the start of the last silent run in the indices below the release
  threshold.\<close>

definition release_sound_end :: "nat list \<Rightarrow> nat" where
  "release_sound_end below_threshold =
     fold (\<lambda>i sound_end.
             if int (below_threshold ! (i + 1)) - int (below_threshold ! i) > 1
             then below_threshold ! (i + 1) else sound_end)
       [0..<length below_threshold - 1] (below_threshold ! 0)"

text \<open>The statistics of the 5 ms envelope. The local \<open>env_sr\<close>, which the function
  computes and never uses, is left out; its division can only fail for a sample rate
  of 0, for which \<open>calculate_envelope\<close> has already raised.\<close>

definition calculate_envelope_stats :: "real list \<Rightarrow> nat \<Rightarrow> real \<Rightarrow> error + EnvelopeStats" where
  "calculate_envelope_stats data sample_rate silence_threshold_db =
     and_then (calculate_envelope data sample_rate (Some 5)) (\<lambda>envelope.
       if length envelope = 0 \<or> fold max (tl envelope) (hd envelope) < 1 / 10 ^ 10 then
         Inr \<lparr>attack_time_ms = 0, decay_time_ms = 0, sustain_level = 0, release_time_ms = 0\<rparr>
       else
         let peak = fold max (tl envelope) (hd envelope);
             norm_env = map (\<lambda>e. e / peak) envelope;
             peak_idx = np_argmax norm_env;
             attack_threshold = 0.9;
             attack_indices = np_where (\<lambda>e. e < attack_threshold) (take peak_idx norm_env);
             attack_time_ms' =
               (if length attack_indices > 0
                then (real peak_idx - real (last attack_indices)) * 5
                else real peak_idx * 5);
             sustain_level' =
               (if length norm_env > 4
                then let quarter = length norm_env div 4
                     in np_mean (slice norm_env quarter (3 * quarter))
                else np_mean norm_env);
             silence_linear = db_to_linear silence_threshold_db;
             release_threshold = max (silence_linear / peak) 0.01;
             below_threshold = np_where (\<lambda>e. e < release_threshold) norm_env;
             release_time_ms' =
               (if length below_threshold > 0
                then let sound_end = release_sound_end below_threshold
                     in if sound_end > peak_idx then (real sound_end - real peak_idx) * 5 else 0
                else (real (length norm_env) - real peak_idx) * 5);
             decay_time_ms' =
               (if sustain_level' < 0.9
                then let decay_indices =
                           np_where (\<lambda>e. e < sustain_level' + 0.1) (drop peak_idx norm_env)
                     in if length decay_indices > 0 then real (hd decay_indices) * 5 else 0
                else 0)
         in Inr \<lparr>attack_time_ms = attack_time_ms', decay_time_ms = decay_time_ms',
                 sustain_level = sustain_level', release_time_ms = release_time_ms'\<rparr>)"

subsection \<open>TransientDetector: \<open>detect_transients\<close>\<close>

record TimingStats =
  first_transient_ms :: real
  num_transients :: nat
  transient_times_ms :: "real list"

text \<open>The energy of every 25 ms frame, one frame per 10 ms hop.\<close>

definition frame_energies :: "real list \<Rightarrow> nat \<Rightarrow> nat \<Rightarrow> nat \<Rightarrow> real list" where
  "frame_energies data hop_length window_length num_frames =
     map (\<lambda>i. let start = i * hop_length;
                   frame = slice data start (start + window_length)
               in sum_list (map (\<lambda>x. x\<^sup>2) frame))
       [0..<num_frames]"

text \<open>\<open>np.diff\<close>.\<close>

definition np_diff :: "real list \<Rightarrow> real list" where
  "np_diff xs = map (\<lambda>i. xs ! (i + 1) - xs ! i) [0..<length xs - 1]"

text \<open>The rectified, normalised first difference of the frame energies;
  \<open>np.max\<close> raises when there is a single frame.\<close>

definition onset_strength_of :: "real list \<Rightarrow> error + real list" where
  "onset_strength_of energies =
     (let onset_strength = map (\<lambda>d. max d 0) (np_diff energies)
      in and_then (np_max onset_strength) (\<lambda>m.
           if m > 0 then Inr (map (\<lambda>s. s / m) onset_strength) else Inr onset_strength))"

text \<open>The hop and window lengths in samples, the number of frames, and the minimum
  distance between onsets in frames.\<close>

definition hop_length_of :: "nat \<Rightarrow> nat" where
  "hop_length_of sample_rate = nat \<lfloor>0.01 * real sample_rate\<rfloor>"

definition window_length_of :: "nat \<Rightarrow> nat" where
  "window_length_of sample_rate = nat \<lfloor>0.025 * real sample_rate\<rfloor>"

definition num_frames_of :: "real list \<Rightarrow> nat \<Rightarrow> int" where
  "num_frames_of data sample_rate =
     (int (length data) - int (window_length_of sample_rate)) div int (hop_length_of sample_rate) + 1"

definition min_distance_of :: "nat \<Rightarrow> nat" where
  "min_distance_of sample_rate =
     nat \<lfloor>0.05 * real sample_rate / real (hop_length_of sample_rate)\<rfloor>"

text \<open>The onset strength of a buffer that has at least one frame.\<close>

definition detect_onset_strength :: "real list \<Rightarrow> nat \<Rightarrow> error + real list" where
  "detect_onset_strength data sample_rate =
     onset_strength_of
       (frame_energies data (hop_length_of sample_rate) (window_length_of sample_rate)
          (nat (num_frames_of data sample_rate)))"

definition detect_transients :: "peak_finder \<Rightarrow> real list \<Rightarrow> nat \<Rightarrow> real \<Rightarrow> error + TimingStats" where
  "detect_transients find_peaks data sample_rate threshold_db =
     (let hop_length = hop_length_of sample_rate
      in if hop_length = 0 then Inl ZeroDivisionError
         else
           let num_frames = num_frames_of data sample_rate
           in if num_frames \<le> 0 then
                Inr \<lparr>first_transient_ms = 0, num_transients = 0, transient_times_ms = []\<rparr>
              else
                and_then (detect_onset_strength data sample_rate) (\<lambda>onset_strength.
                  let threshold_linear = db_to_linear threshold_db;
                      min_distance = min_distance_of sample_rate;
                      peaks = find_peaks onset_strength 0.1 (Some (max 1 min_distance));
                      transient_times_ms' =
                        map (\<lambda>p. (real p * real hop_length / real sample_rate) * 1000) peaks;
                      abs_data = map abs data;
                      first_above = np_where (\<lambda>x. x > threshold_linear) abs_data;
                      first_transient_ms' =
                        (if length first_above > 0
                         then (real (hd first_above) / real sample_rate) * 1000 else 0)
                  in Inr \<lparr>first_transient_ms = first_transient_ms',
                          num_transients = length peaks,
                          transient_times_ms = take 20 transient_times_ms'\<rparr>))"

subsection \<open>CorrelationEngine: \<open>calculate_correlation\<close>\<close>

definition pearson_num :: "real list \<Rightarrow> real list \<Rightarrow> real" where
  "pearson_num a b =
     (let a_mean = np_mean a; b_mean = np_mean b;
          a_centered = map (\<lambda>x. x - a_mean) a;
          b_centered = map (\<lambda>x. x - b_mean) b
      in sum_list (map2 (*) a_centered b_centered))"

definition pearson_den :: "real list \<Rightarrow> real list \<Rightarrow> real" where
  "pearson_den a b =
     (let a_mean = np_mean a; b_mean = np_mean b;
          a_centered = map (\<lambda>x. x - a_mean) a;
          b_centered = map (\<lambda>x. x - b_mean) b
      in sqrt (sum_list (map (\<lambda>x. x\<^sup>2) a_centered) * sum_list (map (\<lambda>x. x\<^sup>2) b_centered)))"

definition calculate_correlation :: "real list \<Rightarrow> real list \<Rightarrow> real" where
  "calculate_correlation a0 b0 =
     (let min_len = min (length a0) (length b0);
          a = (if length a0 \<noteq> length b0 then take min_len a0 else a0);
          b = (if length a0 \<noteq> length b0 then take min_len b0 else b0)
      in if length a = 0 then 0
         else let num = pearson_num a b; den = pearson_den a b
              in if den < 1 / 10 ^ 10 then 0 else num / den)"

definition calculate_spectral_correlation :: "real list \<Rightarrow> real list \<Rightarrow> nat \<Rightarrow> error + real" where
  "calculate_spectral_correlation data1 data2 sample_rate =
     (let min_len = min (length data1) (length data2);
          segment_len = min min_len sample_rate
      in and_then (rfft (take segment_len data1)) (\<lambda>bins1.
         and_then (rfft (take segment_len data2)) (\<lambda>bins2.
           Inr (calculate_correlation (map cmod bins1) (map cmod bins2)))))"

subsection \<open>ComparisonResult, SimilarityScorer and IssueDetector\<close>

text \<open>An issue carries the number its message prints; the message text is not modelled.\<close>

datatype issue =
    PeakLevelDiffers real
  | RmsLevelDiffers real
  | TimingOffset real
  | FirstTransientDiffers real
  | SpectralCentroidDiffers real
  | LowWaveformCorrelation real
  | LowSpectralCorrelation real
  | File1DcOffset real
  | File2DcOffset real

text \<open>The fields \<open>file1\<close> and \<open>file2\<close> (the two paths) are left out: the comparison is
  modelled from the two loaded buffers.\<close>

record ComparisonResult =
  sample_rate :: nat
  duration1_s :: real
  duration2_s :: real
  aligned :: bool
  alignment_offset_ms :: real
  alignment_correlation :: real
  amplitude1 :: AmplitudeStats
  amplitude2 :: AmplitudeStats
  spectral1 :: SpectralStats
  spectral2 :: SpectralStats
  timing1 :: TimingStats
  timing2 :: TimingStats
  peak_diff_db :: real
  rms_diff_db :: real
  spectral_centroid_diff_hz :: real
  waveform_correlation :: real
  envelope_correlation :: real
  spectral_correlation :: real
  similarity_score :: real
  issues :: "issue list"

text \<open>The two lists \<open>scores\<close> and \<open>weights\<close> as the function has appended to them when
  it reaches the weighted average.\<close>

definition similarity_scores :: "ComparisonResult \<Rightarrow> real list" where
  "similarity_scores result =
     [max 0 (waveform_correlation result) * 100,
      max 0 (envelope_correlation result) * 100,
      max 0 (spectral_correlation result) * 100,
      max 0 (100 - \<bar>rms_diff_db result\<bar> * (100 / 12)),
      max 0 (100 - \<bar>peak_diff_db result\<bar> * (100 / 12)),
      max 0 (100 - \<bar>spectral_centroid_diff_hz result\<bar> * (100 / 1000))]
     @ (if aligned result then [max 0 (alignment_correlation result) * 100] else [])"

definition similarity_weights :: "ComparisonResult \<Rightarrow> real list" where
  "similarity_weights result =
     [3.0, 2.0, 2.0, 1.5, 1.0, 1.0] @ (if aligned result then [0.5] else [])"

definition calculate_similarity_score :: "ComparisonResult \<Rightarrow> real" where
  "calculate_similarity_score result =
     (let scores = similarity_scores result;
          weights = similarity_weights result;
          total_weight = sum_list weights;
          weighted_sum = sum_list (map (\<lambda>(s, w). s * w) (zip scores weights))
      in weighted_sum / total_weight)"

definition detect_issues :: "ComparisonResult \<Rightarrow> issue list" where
  "detect_issues result =
     (let timing_diff =
            \<bar>first_transient_ms (timing1 result) - first_transient_ms (timing2 result)\<bar>
      in (if \<bar>peak_diff_db result\<bar> > 3 then [PeakLevelDiffers (peak_diff_db result)] else [])
       @ (if \<bar>rms_diff_db result\<bar> > 3 then [RmsLevelDiffers (rms_diff_db result)] else [])
       @ (if aligned result \<and> \<bar>alignment_offset_ms result\<bar> > 10
          then [TimingOffset (alignment_offset_ms result)] else [])
       @ (if timing_diff > 20 then [FirstTransientDiffers timing_diff] else [])
       @ (if \<bar>spectral_centroid_diff_hz result\<bar> > 200
          then [SpectralCentroidDiffers (spectral_centroid_diff_hz result)] else [])
       @ (if waveform_correlation result < 0.8
          then [LowWaveformCorrelation (waveform_correlation result)] else [])
       @ (if spectral_correlation result < 0.9
          then [LowSpectralCorrelation (spectral_correlation result)] else [])
       @ (if \<bar>dc_offset (amplitude1 result)\<bar> > 0.01
          then [File1DcOffset (dc_offset (amplitude1 result))] else [])
       @ (if \<bar>dc_offset (amplitude2 result)\<bar> > 0.01
          then [File2DcOffset (dc_offset (amplitude2 result))] else []))"

subsection \<open>ComparisonOrchestrator: \<open>compare_audio\<close>\<close>

text \<open>
  The variables of \<open>compare_audio\<close> after its alignment block: \<open>data1\<close> and \<open>data2\<close> as
  the per-file analyzers will receive them, the two aligned views, and the alignment
  outcome.
\<close>

record views =
  v_data1 :: "real list"
  v_data2 :: "real list"
  v_data1_aligned :: "real list"
  v_data2_aligned :: "real list"
  v_offset_ms :: real
  v_align_corr :: real
  v_duration2 :: real

text \<open>The alignment block; \<open>duration2\<close> is the value computed before it.\<close>

definition compare_align ::
  "bool \<Rightarrow> bool \<Rightarrow> real \<Rightarrow> real list \<Rightarrow> real list \<Rightarrow> nat \<Rightarrow> real \<Rightarrow> error + views" where
  "compare_align align trim silence_threshold_db data1 data2 target_sr duration2 =
     (if align then
        and_then (find_alignment_offset_by_transient data1 data2 target_sr
                    (Some silence_threshold_db)) (\<lambda>(offset, align_corr).
          if target_sr = 0 then Inl ZeroDivisionError
          else
            let offset_ms = (real_of_int offset / real target_sr) * 1000;
                data2_shifted = (if offset > 0 then drop (nat offset) data2 else data2);
                data1_shifted =
                  (if offset > 0 then data1
                   else if offset < 0 then drop (nat (- offset)) data1 else data1);
                min_len = min (length data1_shifted) (length data2_shifted);
                data1_aligned = take min_len data1_shifted;
                data2_aligned = take min_len data2_shifted
            in if trim then
                 let target_len = length data1
                 in if offset > 0 then
                      let data2_trimmed = slice data2 (nat offset) (nat offset + target_len)
                      in Inr \<lparr>v_data1 = data1, v_data2 = data2_trimmed,
                              v_data1_aligned = take target_len data1_aligned,
                              v_data2_aligned = take target_len data2_aligned,
                              v_offset_ms = offset_ms, v_align_corr = align_corr,
                              v_duration2 = real (length data2_trimmed) / real target_sr\<rparr>
                    else
                      Inr \<lparr>v_data1 = data1, v_data2 = data2,
                           v_data1_aligned = take target_len data1_aligned,
                           v_data2_aligned = take target_len data2_aligned,
                           v_offset_ms = offset_ms, v_align_corr = align_corr,
                           v_duration2 = real (length data2) / real target_sr\<rparr>
               else
                 Inr \<lparr>v_data1 = data1, v_data2 = data2,
                      v_data1_aligned = data1_aligned, v_data2_aligned = data2_aligned,
                      v_offset_ms = offset_ms, v_align_corr = align_corr,
                      v_duration2 = duration2\<rparr>)
      else
        let min_len = min (length data1) (length data2)
        in Inr \<lparr>v_data1 = data1, v_data2 = data2,
                v_data1_aligned = take min_len data1, v_data2_aligned = take min_len data2,
                v_offset_ms = 0, v_align_corr = 0, v_duration2 = duration2\<rparr>)"

text \<open>The normalisation block, on the two aligned views.\<close>

definition compare_normalize ::
  "bool \<Rightarrow> real list \<Rightarrow> real list \<Rightarrow> error + (real list \<times> real list)" where
  "compare_normalize normalize' data1_aligned data2_aligned =
     (if normalize' then
        and_then (np_max (map abs data1_aligned)) (\<lambda>peak1.
        and_then (np_max (map abs data2_aligned)) (\<lambda>peak2.
          Inr (if peak1 > 1 / 10 ^ 10 then map (\<lambda>x. x / peak1) data1_aligned else data1_aligned,
               if peak2 > 1 / 10 ^ 10 then map (\<lambda>x. x / peak2) data2_aligned else data2_aligned)))
      else Inr (data1_aligned, data2_aligned))"

text \<open>The envelope correlation of the two aligned views.\<close>

definition compare_envelope_correlation :: "real list \<Rightarrow> real list \<Rightarrow> nat \<Rightarrow> error + real" where
  "compare_envelope_correlation data1_aligned data2_aligned target_sr =
     and_then (calculate_envelope data1_aligned target_sr None) (\<lambda>env1.
     and_then (calculate_envelope data2_aligned target_sr None) (\<lambda>env2.
       Inr (calculate_correlation env1 env2)))"

text \<open>
  The comparison of two loaded buffers, each a sample sequence with its sample rate
  (\<open>load_audio\<close> reads them from the two files before anything else runs).
\<close>

type_synonym resampler = "real list \<Rightarrow> nat \<Rightarrow> error + real list"

text \<open>The resampling block: both buffers at the higher of the two rates.\<close>

definition compare_resample ::
  "resampler \<Rightarrow> real list \<times> nat \<Rightarrow> real list \<times> nat \<Rightarrow> error + (real list \<times> real list)" where
  "compare_resample resample loaded1 loaded2 =
     (let sr1 = snd loaded1; sr2 = snd loaded2; target_sr = max sr1 sr2
      in
      and_then (if sr1 \<noteq> target_sr then resample_if_needed resample (fst loaded1) sr1 target_sr
                else Inr (fst loaded1)) (\<lambda>data1.
      and_then (if sr2 \<noteq> target_sr then resample_if_needed resample (fst loaded2) sr2 target_sr
                else Inr (fst loaded2)) (\<lambda>data2.
        Inr (data1, data2))))"

definition compare_audio ::
  "resampler \<Rightarrow> peak_finder \<Rightarrow> real list \<times> nat \<Rightarrow> real list \<times> nat \<Rightarrow>
   bool \<Rightarrow> bool \<Rightarrow> bool \<Rightarrow> real \<Rightarrow> error + ComparisonResult" where
  "compare_audio resample find_peaks loaded1 loaded2 align trim normalize' silence_threshold_db =
     (let target_sr = max (snd loaded1) (snd loaded2)
      in
      and_then (compare_resample resample loaded1 loaded2) (\<lambda>(data1, data2).
      if target_sr = 0 then Inl ZeroDivisionError
      else
      let duration1 = real (length data1) / real target_sr;
          duration2 = real (length data2) / real target_sr
      in
      and_then (compare_align align trim silence_threshold_db data1 data2 target_sr duration2) (\<lambda>v.
      and_then (compare_normalize normalize' (v_data1_aligned v) (v_data2_aligned v))
        (\<lambda>(data1_aligned, data2_aligned).
      and_then (calculate_amplitude_stats (v_data1 v) target_sr silence_threshold_db) (\<lambda>amp1.
      and_then (calculate_amplitude_stats (v_data2 v) target_sr silence_threshold_db) (\<lambda>amp2.
      and_then (calculate_spectral_stats find_peaks (v_data1 v) target_sr) (\<lambda>spec1.
      and_then (calculate_spectral_stats find_peaks (v_data2 v) target_sr) (\<lambda>spec2.
      and_then (detect_transients find_peaks (v_data1 v) target_sr silence_threshold_db) (\<lambda>timing1'.
      and_then (detect_transients find_peaks (v_data2 v) target_sr silence_threshold_db) (\<lambda>timing2'.
      let waveform_corr = calculate_correlation data1_aligned data2_aligned
      in
      and_then (compare_envelope_correlation data1_aligned data2_aligned target_sr) (\<lambda>envelope_corr.
      and_then (calculate_spectral_correlation data1_aligned data2_aligned target_sr) (\<lambda>spectral_corr.
      and_then (calculate_envelope_stats (v_data1 v) target_sr silence_threshold_db) (\<lambda>env_stats1.
      and_then (calculate_envelope_stats (v_data2 v) target_sr silence_threshold_db) (\<lambda>env_stats2.
      let result =
            \<lparr>sample_rate = target_sr, duration1_s = duration1, duration2_s = v_duration2 v,
             aligned = align, alignment_offset_ms = v_offset_ms v,
             alignment_correlation = v_align_corr v,
             amplitude1 = amp1, amplitude2 = amp2, spectral1 = spec1, spectral2 = spec2,
             timing1 = timing1', timing2 = timing2',
             peak_diff_db = peak_db amp2 - peak_db amp1,
             rms_diff_db = rms_db amp2 - rms_db amp1,
             spectral_centroid_diff_hz = centroid_hz spec2 - centroid_hz spec1,
             waveform_correlation = waveform_corr, envelope_correlation = envelope_corr,
             spectral_correlation = spectral_corr, similarity_score = 0, issues = []\<rparr>;
          scored = result\<lparr>similarity_score := calculate_similarity_score result\<rparr>
      in Inr (scored\<lparr>issues := detect_issues scored\<rparr>)))))))))))))))"

subsection \<open>Instances of the two library parameters\<close>

text \<open>
  A sample-and-hold resampler. Like \<open>scipy.signal.resample\<close> it returns the requested
  number of samples; it stands for the library routine where a concrete run is
  evaluated.
\<close>

definition hold_resample :: resampler where
  "hold_resample d n =
     (if d = [] then Inl ValueError
      else Inr (map (\<lambda>i. d ! (i * length d div n)) [0..<n]))"

text \<open>
  The interior strict local maxima of at least the given height. It agrees with
  \<open>scipy.signal.find_peaks\<close> on an array none of whose maxima is a plateau and whose
  maxima are at least \<open>distance\<close> apart; it stands for the library routine where a
  concrete run is evaluated.
\<close>

definition strict_peaks :: peak_finder where
  "strict_peaks x height distance =
     filter (\<lambda>i. x ! (i - 1) < x ! i \<and> x ! (i + 1) < x ! i \<and> height \<le> x ! i)
       [1..<length x - 1]"

section \<open>Properties\<close>

subsection \<open>Pearson correlation\<close>

lemma sum_sq_nonneg: "0 \<le> sum_list (map (\<lambda>x. x\<^sup>2) (xs::real list))"
  by (induction xs) auto

lemma pearson_den_self:
  "pearson_den a a = sum_list (map (\<lambda>x. x\<^sup>2) (map (\<lambda>x. x - np_mean a) a))"
  using sum_sq_nonneg [of "map (\<lambda>x. x - np_mean a) a"]
  by (simp add: pearson_den_def Let_def)

lemma pearson_num_self:
  "pearson_num a a = sum_list (map (\<lambda>x. x\<^sup>2) (map (\<lambda>x. x - np_mean a) a))"
  by (simp add: pearson_num_def Let_def power2_eq_square zip_same_conv_map comp_def)

lemma sum_list_uminus_real: "sum_list (map uminus (a::real list)) = - sum_list a"
  by (induction a) auto

lemma np_mean_uminus: "np_mean (map uminus a) = - np_mean a"
  by (simp add: np_mean_def sum_list_uminus_real)

lemma pearson_den_neg: "pearson_den a (map uminus a) = pearson_den a a"
proof -
  have "(np_mean a - x)\<^sup>2 = (x - np_mean a)\<^sup>2" for x
    by (simp add: power2_commute)
  then show ?thesis
    by (simp add: pearson_den_def Let_def np_mean_uminus comp_def)
qed

lemma sum_list_map2_neg:
  "sum_list (map2 (*) xs (map (\<lambda>x. - f x) ys)) = - sum_list (map2 (*) xs (map f ys))"
  for xs :: "real list"
  by (induction xs arbitrary: ys) (auto simp: zip_Cons1 split: list.splits)

lemma pearson_num_neg: "pearson_num a (map uminus a) = - pearson_num a a"
  using sum_list_map2_neg [of "map (\<lambda>x. x - np_mean a) a" "\<lambda>x. x - np_mean a" a]
  by (simp add: pearson_num_def Let_def np_mean_uminus comp_def)

text \<open>
  C6. Whenever the Pearson denominator of a sequence with itself is at least \<open>1e-10\<close>
  (so the sequence is not constant), its correlation with itself is 1 and its
  correlation with its exact negation is -1; a correlation with an empty sequence
  is 0.
\<close>

theorem correlation_self_and_negation:
  "(1 / 10 ^ 10 \<le> pearson_den a a \<longrightarrow>
      calculate_correlation a a = 1 \<and> calculate_correlation a (map uminus a) = - 1)
   \<and> calculate_correlation [] b = 0 \<and> calculate_correlation a [] = 0"
proof -
  have "calculate_correlation a a = 1 \<and> calculate_correlation a (map uminus a) = - 1"
    if den: "1 / 10 ^ 10 \<le> pearson_den a a"
  proof -
    have pos: "0 < pearson_den a a"
      by (rule less_le_trans [OF _ den]) simp
    have ne: "a \<noteq> []"
      using pos by (auto simp: pearson_den_def)
    have eq: "pearson_num a a = pearson_den a a"
      by (simp add: pearson_num_self pearson_den_self)
    show ?thesis
      using den pos ne eq
      by (simp add: calculate_correlation_def Let_def pearson_den_neg pearson_num_neg)
  qed
  moreover have "calculate_correlation [] b = 0" "calculate_correlation a [] = 0"
    by (simp_all add: calculate_correlation_def Let_def)
  ultimately show ?thesis by blast
qed

theorem correlation_self_and_negation_witness:
  "1 / 10 ^ 10 \<le> pearson_den [0, 1] [0, 1]
   \<and> calculate_correlation [0, 1] [0, 1] = 1
   \<and> calculate_correlation [0, 1] (map uminus [0, 1]) = - 1
   \<and> calculate_correlation [] [0, 1] = 0"
proof -
  have den: "pearson_den [0, 1] [0, 1] = 1 / 2"
    by (simp add: pearson_den_self np_mean_def power2_eq_square)
  then have h: "1 / 10 ^ 10 \<le> pearson_den [0, 1] [0, 1]"
    by simp
  show ?thesis
    using h correlation_self_and_negation [of "[0, 1]" "[0, 1]"] by blast
qed

subsection \<open>Similarity score\<close>

text \<open>
  C9. The similarity score is the weighted sum of the component scores divided by the
  sum of the weights applied: the three correlations clamped at 0 and scaled by 100
  with weights 3.0, 2.0 and 2.0, the RMS and peak difference scores
  \<open>max(0, 100 - |diff| * (100/12))\<close> with weights 1.5 and 1.0, the centroid difference
  score \<open>max(0, 100 - |diff| * (100/1000))\<close> with weight 1.0, and the clamped alignment
  correlation scaled by 100 with weight 0.5 exactly when the result is aligned.
\<close>

theorem similarity_score_weighted_average:
  "calculate_similarity_score r =
     (if aligned r then
        (3.0 * (max 0 (waveform_correlation r) * 100)
         + 2.0 * (max 0 (envelope_correlation r) * 100)
         + 2.0 * (max 0 (spectral_correlation r) * 100)
         + 1.5 * max 0 (100 - \<bar>rms_diff_db r\<bar> * (100 / 12))
         + 1.0 * max 0 (100 - \<bar>peak_diff_db r\<bar> * (100 / 12))
         + 1.0 * max 0 (100 - \<bar>spectral_centroid_diff_hz r\<bar> * (100 / 1000))
         + 0.5 * (max 0 (alignment_correlation r) * 100))
        / (3.0 + 2.0 + 2.0 + 1.5 + 1.0 + 1.0 + 0.5)
      else
        (3.0 * (max 0 (waveform_correlation r) * 100)
         + 2.0 * (max 0 (envelope_correlation r) * 100)
         + 2.0 * (max 0 (spectral_correlation r) * 100)
         + 1.5 * max 0 (100 - \<bar>rms_diff_db r\<bar> * (100 / 12))
         + 1.0 * max 0 (100 - \<bar>peak_diff_db r\<bar> * (100 / 12))
         + 1.0 * max 0 (100 - \<bar>spectral_centroid_diff_hz r\<bar> * (100 / 1000)))
        / (3.0 + 2.0 + 2.0 + 1.5 + 1.0 + 1.0))"
  by (simp add: calculate_similarity_score_def similarity_scores_def similarity_weights_def
      Let_def algebra_simps)

subsection \<open>Amplitude statistics of degenerate buffers\<close>

text \<open>
  C2. On the empty buffer the amplitude analyzer does not return statistics: its first
  step, \<open>np.max\<close> of the absolute samples, raises ValueError.
\<close>

theorem amplitude_stats_empty_raises:
  "calculate_amplitude_stats [] sr silence_threshold_db = Inl ValueError"
  by (simp add: calculate_amplitude_stats_def)

subsection \<open>Transient alignment\<close>

lemma np_where_Cons:
  "np_where P (x # xs) = (if P x then [0] else []) @ map Suc (np_where P xs)"
proof -
  have "[0..<Suc (length xs)] = 0 # map Suc [0..<length xs]"
    by (simp add: upt_conv_Cons map_Suc_upt del: upt_Suc)
  then show ?thesis
    by (simp add: np_where_def filter_map comp_def del: upt_Suc)
qed

lemma np_where_replicate_append:
  "\<not> P z \<Longrightarrow> np_where P (replicate k z @ xs) = map (\<lambda>i. k + i) (np_where P xs)"
proof (induction k)
  case 0
  have "map (\<lambda>i. 0 + i) (np_where P xs) = np_where P xs"
    by (rule map_idI) simp
  then show ?case by simp
next
  case (Suc k)
  then show ?case by (simp add: np_where_Cons comp_def)
qed

lemma np_where_nonempty: "\<exists>x\<in>set xs. P x \<Longrightarrow> np_where P xs \<noteq> []"
  by (induction xs) (auto simp: np_where_Cons)

lemma db_to_linear_minus_40: "db_to_linear (- 40) = 1 / 100"
  by (simp add: db_to_linear_def powr_minus divide_simps)

lemma db_to_linear_pos: "0 < db_to_linear d"
  by (simp add: db_to_linear_def)

lemma find_first_transient_delayed:
  assumes "\<exists>x\<in>set data. \<bar>x\<bar> > db_to_linear d"
  shows "find_first_transient (replicate k 0 @ data) sr d = k + find_first_transient data sr d"
proof -
  let ?P = "\<lambda>x. x > db_to_linear d"
  have ne: "np_where ?P (map abs data) \<noteq> []"
    using assms by (intro np_where_nonempty) auto
  have "np_where ?P (map abs (replicate k 0 @ data))
          = map (\<lambda>i. k + i) (np_where ?P (map abs data))"
    using np_where_replicate_append [of ?P 0 k "map abs data"] db_to_linear_pos [of d]
    by simp
  then show ?thesis
    using ne by (simp add: find_first_transient_def Let_def hd_map)
qed

lemma np_max_nonempty: "xs \<noteq> [] \<Longrightarrow> \<exists>m. np_max xs = Inr m"
  by (cases xs) auto

lemma transient_peak_ok: "x \<noteq> [] \<Longrightarrow> 0 < sr \<Longrightarrow> \<exists>m. transient_peak x sr = Inr m"
  by (auto simp: transient_peak_def intro!: np_max_nonempty)

text \<open>
  C8. If some sample of the reference exceeds the alignment threshold in absolute
  value (and the sample rate is positive), the transient strategy applied to the
  reference and to the same signal behind \<open>k\<close> samples of silence returns the offset
  \<open>k\<close>, together with some confidence.
\<close>

theorem transient_alignment_recovers_delay:
  assumes "\<exists>x\<in>set reference.
             \<bar>x\<bar> > db_to_linear (case threshold_db_arg of None \<Rightarrow> - 40 | Some d \<Rightarrow> d)"
    and "0 < sr"
  shows "\<exists>confidence.
           find_alignment_offset_by_transient reference (replicate k 0 @ reference) sr
             threshold_db_arg = Inr (int k, confidence)"
proof -
  let ?d = "case threshold_db_arg of None \<Rightarrow> - 40 | Some d \<Rightarrow> d"
  have ne: "reference \<noteq> []" using assms(1) by auto
  obtain p1 where p1: "transient_peak reference sr = Inr p1"
    using transient_peak_ok [OF ne assms(2)] by blast
  have "replicate k 0 @ reference \<noteq> []" using ne by simp
  then obtain p2 where p2: "transient_peak (replicate k 0 @ reference) sr = Inr p2"
    using transient_peak_ok [OF _ assms(2)] by blast
  have "find_first_transient (replicate k 0 @ reference) sr ?d
          = k + find_first_transient reference sr ?d"
    using assms(1) by (rule find_first_transient_delayed)
  then have "find_alignment_offset_by_transient reference (replicate k 0 @ reference) sr
               threshold_db_arg
             = Inr (int k, min (min (p1 / db_to_linear ?d) (p2 / db_to_linear ?d)) 10 / 10)"
    by (simp add: find_alignment_offset_by_transient_def Let_def p1 p2)
  then show ?thesis by blast
qed

theorem transient_alignment_recovers_delay_witness:
  "(\<exists>x\<in>set [0, 1/2, 1]. \<bar>x\<bar> > db_to_linear (case None of None \<Rightarrow> - 40 | Some d \<Rightarrow> d))
   \<and> (0::nat) < 48000
   \<and> (\<exists>confidence.
         find_alignment_offset_by_transient [0, 1/2, 1] (replicate 3 0 @ [0, 1/2, 1]) 48000 None
           = Inr (3, confidence))"
proof -
  have h1: "\<exists>x\<in>set [0, 1/2, 1].
              \<bar>x\<bar> > db_to_linear (case None of None \<Rightarrow> - 40 | Some d \<Rightarrow> d)"
    by (simp add: db_to_linear_def powr_minus divide_simps)
  have h2: "(0::nat) < 48000" by simp
  show ?thesis
    using h1 h2 transient_alignment_recovers_delay [OF h1 h2, of 3] by simp
qed

subsection \<open>Resampling\<close>

lemma float64_eval:
  assumes "0 < x" and "2 powr (real_of_int e) \<le> x" and "x < 2 powr (real_of_int e + 1)"
  shows "float64 x = float64_at e x"
proof -
  have "\<lfloor>log 2 x\<rfloor> = e"
    using assms by (subst floor_log_eq_powr_iff) auto
  then show ?thesis
    using assms(1) by (simp add: float64_def)
qed

text \<open>The float64 values behind two resampling requests, digit for digit.\<close>

lemma float64_44100: "float64 (real (44100::nat)) = 44100"
proof -
  have "float64 44100 = float64_at 15 44100"
    by (rule float64_eval) (simp_all add: powr_numeral flip: powr_realpow)
  also have "\<dots> = 44100"
    unfolding float64_at_def Let_def
    by (simp add: round_half_even_def Let_def powr_minus powr_numeral divide_simps)
  finally show ?thesis by simp
qed

lemma float64_48000: "float64 (real (48000::nat)) = 48000"
proof -
  have "float64 48000 = float64_at 15 48000"
    by (rule float64_eval) (simp_all add: powr_numeral flip: powr_realpow)
  also have "\<dots> = 48000"
    unfolding float64_at_def Let_def
    by (simp add: round_half_even_def Let_def powr_minus powr_numeral divide_simps)
  finally show ?thesis by simp
qed

lemma duration_7: "float64 (real (7::nat) / real (44100::nat)) = 5856109229749064 / 2 ^ 65"
proof -
  have "float64 (7 / 44100) = float64_at (- 13) (7 / 44100)"
    by (rule float64_eval) (simp_all add: powr_minus powr_numeral divide_simps flip: powr_realpow)
  also have "\<dots> = 5856109229749064 / 2 ^ 65"
    unfolding float64_at_def Let_def
    by (simp add: round_half_even_def Let_def powr_minus powr_numeral divide_simps)
  finally show ?thesis by simp
qed

lemma product_7: "float64 (5856109229749064 / 2 ^ 65 * 48000) = 8578285004515230 / 2 ^ 50"
proof -
  have "float64 (5856109229749064 / 2 ^ 65 * 48000)
          = float64_at 2 (5856109229749064 / 2 ^ 65 * 48000)"
    by (rule float64_eval) (simp_all add: powr_numeral flip: powr_realpow)
  also have "\<dots> = 8578285004515230 / 2 ^ 50"
    unfolding float64_at_def Let_def
    by (simp add: round_half_even_def Let_def powr_minus powr_numeral divide_simps)
  finally show ?thesis .
qed

lemma new_length_7: "resample_new_length 7 44100 48000 = 7"
  unfolding resample_new_length_def Let_def duration_7 float64_48000 product_7 by simp

lemma duration_15: "float64 (real (15::nat) / real (22050::nat)) = 6274402746159711 / 2 ^ 63"
proof -
  have "float64 (15 / 22050) = float64_at (- 11) (15 / 22050)"
    by (rule float64_eval) (simp_all add: powr_minus powr_numeral divide_simps flip: powr_realpow)
  also have "\<dots> = 6274402746159711 / 2 ^ 63"
    unfolding float64_at_def Let_def
    by (simp add: round_half_even_def Let_def powr_minus powr_numeral divide_simps)
  finally show ?thesis by simp
qed

lemma product_15: "float64 (6274402746159711 / 2 ^ 63 * 44100) = 8444249301319679 / 2 ^ 48"
proof -
  have "float64 (6274402746159711 / 2 ^ 63 * 44100)
          = float64_at 4 (6274402746159711 / 2 ^ 63 * 44100)"
    by (rule float64_eval) (simp_all add: powr_numeral flip: powr_realpow)
  also have "\<dots> = 8444249301319679 / 2 ^ 48"
    unfolding float64_at_def Let_def
    by (simp add: round_half_even_def Let_def powr_minus powr_numeral divide_simps)
  finally show ?thesis .
qed

text \<open>Fifteen samples from 22050 Hz to 44100 Hz: the exact product is 30, the float64
  product is just below it, and the requested length is 29.\<close>

lemma new_length_15:
  "resample_new_length 15 22050 44100 = 29
   \<and> nat \<lfloor>real (15::nat) / real (22050::nat) * real (44100::nat)\<rfloor> = 30"
  unfolding resample_new_length_def Let_def duration_15 float64_44100 product_15 by simp

lemma hold_resample_length: "hold_resample d n = Inr ys \<Longrightarrow> length ys = n"
  by (auto simp: hold_resample_def split: if_splits)

lemma hold_resample_7:
  "resample_if_needed hold_resample [0, 1, 0, - 1, 0, 1, 0] 44100 48000 = Inr [0, 1, 0, - 1, 0, 1, 0]"
proof -
  have "length [0, 1, 0, - 1, 0, 1, 0 :: real] = 7"
    by simp
  then have n: "resample_new_length (length [0, 1, 0, - 1, 0, 1, 0 :: real]) 44100 48000 = 7"
    using new_length_7 by (simp only:)
  have u: "[0..<7] = [0, 1, 2, 3, 4, 5, 6]"
    by code_simp
  have "hold_resample [0, 1, 0, - 1, 0, 1, 0] 7 = Inr [0, 1, 0, - 1, 0, 1, 0]"
    by (simp add: hold_resample_def u)
  then show ?thesis
    unfolding resample_if_needed_def Let_def n by simp
qed

text \<open>
  C4, as stated, fails: seven samples at 44100 Hz resampled to 48000 Hz give the
  float64 product \<open>7.619047619047619\<close>; the code requests \<open>int(7.619...) = 7\<close> samples,
  not \<open>round(7.619...) = 8\<close>.
\<close>

theorem resample_count_rounded_counterexample:
  "resample_if_needed hold_resample [0, 1, 0, - 1, 0, 1, 0] 44100 48000
     = Inr [0, 1, 0, - 1, 0, 1, 0]
   \<and> float64 (float64 (real (length [0, 1, 0, - 1, 0, 1, 0 :: real]) / real (44100::nat))
                * float64 (real (48000::nat)))
       = 8578285004515230 / 2 ^ 50
   \<and> int (length [0, 1, 0, - 1, 0, 1, 0 :: real]) \<noteq> round (8578285004515230 / 2 ^ 50 :: real)"
proof -
  have l: "real (length [0, 1, 0, - 1, 0, 1, 0 :: real]) = real (7::nat)"
    by simp
  have p: "float64 (float64 (real (length [0, 1, 0, - 1, 0, 1, 0 :: real]) / real (44100::nat))
                * float64 (real (48000::nat))) = 8578285004515230 / 2 ^ 50"
    unfolding l duration_7 float64_48000 product_7 ..
  have "round (8578285004515230 / 2 ^ 50 :: real) = 8"
    by (simp add: round_def)
  then show ?thesis
    using hold_resample_7 p by simp
qed

text \<open>
  C4, amended. With equal rates the input is returned unchanged. Otherwise, for a
  resampler that returns the number of samples it is asked for, the output has
  \<open>int(duration_seconds * target_rate)\<close> samples: the float64 product of the float64
  quotient \<open>length / rate\<close> and the target rate, truncated, not rounded.
\<close>

theorem resample_if_needed_sample_count:
  "resample_if_needed resample data sr sr = Inr data
   \<and> (sr_orig \<noteq> sr_target
        \<and> (\<forall>d n ys. resample d n = Inr ys \<longrightarrow> length ys = n)
        \<and> resample_if_needed resample data sr_orig sr_target = Inr out
      \<longrightarrow> length out
          = nat \<lfloor>float64 (float64 (real (length data) / real sr_orig) * float64 (real sr_target))\<rfloor>)"
proof (intro conjI impI)
  show "resample_if_needed resample data sr sr = Inr data"
    by (simp add: resample_if_needed_def)
next
  assume a: "sr_orig \<noteq> sr_target
        \<and> (\<forall>d n ys. resample d n = Inr ys \<longrightarrow> length ys = n)
        \<and> resample_if_needed resample data sr_orig sr_target = Inr out"
  from a have ne: "sr_orig \<noteq> sr_target"
    and len: "\<And>d n ys. resample d n = Inr ys \<Longrightarrow> length ys = n"
    and res: "resample_if_needed resample data sr_orig sr_target = Inr out"
    by blast+
  from ne res have nz: "sr_orig \<noteq> 0"
    by (auto simp: resample_if_needed_def split: if_splits)
  from res ne nz
  have "resample data (resample_new_length (length data) sr_orig sr_target) = Inr out"
    by (simp add: resample_if_needed_def Let_def)
  then have "length out = resample_new_length (length data) sr_orig sr_target"
    by (rule len)
  then show "length out
      = nat \<lfloor>float64 (float64 (real (length data) / real sr_orig) * float64 (real sr_target))\<rfloor>"
    by (simp add: resample_new_length_def Let_def)
qed

theorem resample_if_needed_sample_count_witness:
  "resample_if_needed hold_resample [0, 1, 0, - 1, 0, 1, 0] 48000 48000 = Inr [0, 1, 0, - 1, 0, 1, 0]
   \<and> (44100::nat) \<noteq> 48000
   \<and> resample_if_needed hold_resample [0, 1, 0, - 1, 0, 1, 0] 44100 48000
        = Inr [0, 1, 0, - 1, 0, 1, 0]
   \<and> length [0, 1, 0, - 1, 0, 1, 0 :: real]
        = nat \<lfloor>float64 (float64 (real (length [0, 1, 0, - 1, 0, 1, 0 :: real]) / real (44100::nat))
                          * float64 (real (48000::nat)))\<rfloor>"
proof -
  have h1: "(44100::nat) \<noteq> 48000" by simp
  have h2: "\<forall>d n ys. hold_resample d n = Inr ys \<longrightarrow> length ys = n"
    using hold_resample_length by blast
  note h3 = hold_resample_7
  note t = resample_if_needed_sample_count
          [of hold_resample "[0, 1, 0, - 1, 0, 1, 0]" 48000 44100 48000 "[0, 1, 0, - 1, 0, 1, 0]"]
  from t have c1: "resample_if_needed hold_resample [0, 1, 0, - 1, 0, 1, 0] 48000 48000
                    = Inr [0, 1, 0, - 1, 0, 1, 0]"
    by (rule conjunct1)
  from t h1 h2 h3 have c2: "length [0, 1, 0, - 1, 0, 1, 0 :: real]
        = nat \<lfloor>float64 (float64 (real (length [0, 1, 0, - 1, 0, 1, 0 :: real]) / real (44100::nat))
                          * float64 (real (48000::nat)))\<rfloor>"
    by blast
  show ?thesis
    using c1 h1 h3 c2 by blast
qed

subsection \<open>Spectral statistics of silence\<close>

lemma spectral_guard:
  assumes "spectral_total_power data sr = Inr p" and "p < 1 / 10 ^ 10"
  shows "calculate_spectral_stats fp data sr = Inr zero_spectral_stats"
proof -
  from assms(1) obtain spectrum where
    s: "spectral_spectrum data sr = Inr spectrum" and
    p: "p = sum_list (map (\<lambda>s. s\<^sup>2) spectrum)"
    by (auto simp: spectral_total_power_def and_then_def split: sum.splits)
  show ?thesis
    using assms(2) unfolding p
    by (simp add: calculate_spectral_stats_def s and_then_def Let_def zero_spectral_stats_def)
qed

lemma np_hanning_length: "length (np_hanning M) = M"
  by (simp add: np_hanning_def)

lemma spectral_windowed_length:
  "length (spectral_windowed data sr) = min (length data) (sr * 2)"
  by (simp add: spectral_windowed_def Let_def slice_def np_hanning_length)

lemma map2_mult_zero:
  assumes "\<forall>x\<in>set xs. x = (0::real)"
  shows "\<forall>x\<in>set (map2 (*) xs ys). x = 0"
proof
  fix x assume "x \<in> set (map2 (*) xs ys)"
  then obtain a b where ab: "(a, b) \<in> set (zip xs ys)" and x: "x = a * b"
    by auto
  from ab have "a \<in> set xs" by (rule set_zip_leftD)
  with assms x show "x = 0" by simp
qed

lemma slice_zero:
  assumes "\<forall>x\<in>set data. x = (0::real)"
  shows "\<forall>x\<in>set (slice data a b). x = 0"
  using assms by (auto simp: slice_def dest!: in_set_takeD in_set_dropD)

lemma spectral_windowed_zero:
  assumes "\<forall>x\<in>set data. x = 0"
  shows "\<forall>x\<in>set (spectral_windowed data sr). x = 0"
  unfolding spectral_windowed_def Let_def
  by (rule map2_mult_zero) (rule slice_zero [OF assms])

lemma sum_list_map_zero:
  "(\<And>x. x \<in> set xs \<Longrightarrow> f x = 0) \<Longrightarrow> sum_list (map f xs) = (0::'a::monoid_add)"
  by (induction xs) auto

lemma rfft_zero:
  assumes "x \<noteq> []" and "\<forall>v\<in>set x. v = 0"
  shows "\<exists>bins. rfft x = Inr bins \<and> (\<forall>b\<in>set bins. b = 0)"
proof -
  have "x ! m = 0" if "m < length x" for m
    using assms(2) that by (simp add: all_set_conv_all_nth)
  then have "(\<Sum>m\<leftarrow>[0..<length x]. of_real (x ! m) * cis (- (2 * pi * real k * real m / real (length x)))) = 0"
    for k
    by (intro sum_list_map_zero) simp
  then show ?thesis
    using assms(1) by (simp add: rfft_def Let_def)
qed

lemma sum_list_zero_sq: "\<forall>s\<in>set xs. s = 0 \<Longrightarrow> sum_list (map (\<lambda>s. s\<^sup>2) xs) = (0::real)"
  by (induction xs) auto

lemma spectral_total_power_zero:
  assumes "data \<noteq> []" and "0 < sr" and "\<forall>x\<in>set data. x = 0"
  shows "spectral_total_power data sr = Inr 0"
proof -
  have "length (spectral_windowed data sr) > 0"
    using assms(1,2) by (simp add: spectral_windowed_length)
  then have ne: "spectral_windowed data sr \<noteq> []" by auto
  obtain bins where b: "rfft (spectral_windowed data sr) = Inr bins" and z: "\<forall>b\<in>set bins. b = 0"
    using rfft_zero [OF ne spectral_windowed_zero [OF assms(3)]] by blast
  have "\<forall>s\<in>set (tl (map cmod bins)). s = 0"
    using z by (cases bins) auto
  then have "sum_list (map (\<lambda>s. s\<^sup>2) (tl (map cmod bins))) = 0"
    by (rule sum_list_zero_sq)
  then show ?thesis
    by (simp add: spectral_total_power_def spectral_spectrum_def and_then_def b)
qed

text \<open>
  C7. When the total spectral power of the analysed segment (the sum of the squared
  magnitudes without the DC bin) is below \<open>1e-10\<close>, the spectral analyzer returns the
  all-zero statistics with no dominant frequency; in particular it returns them,
  without raising, for every non-empty all-zero buffer at a positive sample rate.
\<close>

theorem spectral_stats_silence_guard:
  "(spectral_total_power data sr = Inr p \<and> p < 1 / 10 ^ 10
      \<longrightarrow> calculate_spectral_stats find_peaks data sr = Inr zero_spectral_stats)
   \<and> (data \<noteq> [] \<and> 0 < sr \<and> (\<forall>x\<in>set data. x = 0)
      \<longrightarrow> calculate_spectral_stats find_peaks data sr = Inr zero_spectral_stats)"
proof (intro conjI impI)
  assume "spectral_total_power data sr = Inr p \<and> p < 1 / 10 ^ 10"
  then show "calculate_spectral_stats find_peaks data sr = Inr zero_spectral_stats"
    using spectral_guard by blast
next
  assume "data \<noteq> [] \<and> 0 < sr \<and> (\<forall>x\<in>set data. x = 0)"
  then have "spectral_total_power data sr = Inr 0"
    using spectral_total_power_zero by blast
  moreover have "(0::real) < 1 / 10 ^ 10" by simp
  ultimately show "calculate_spectral_stats find_peaks data sr = Inr zero_spectral_stats"
    by (rule spectral_guard)
qed

theorem spectral_stats_silence_guard_witness:
  "spectral_total_power [0, 0, 0] 48000 = Inr 0 \<and> (0::real) < 1 / 10 ^ 10
   \<and> [0, 0, 0 :: real] \<noteq> [] \<and> (0::nat) < 48000 \<and> set [0, 0, 0 :: real] = {0}
   \<and> calculate_spectral_stats strict_peaks [0, 0, 0] 48000 = Inr zero_spectral_stats"
proof -
  have h1: "spectral_total_power [0, 0, 0] 48000 = Inr 0"
    by (rule spectral_total_power_zero) simp_all
  have h2: "(0::real) < 1 / 10 ^ 10" by simp
  have h3: "[0, 0, 0 :: real] \<noteq> [] \<and> (0::nat) < 48000 \<and> (\<forall>x\<in>set [0, 0, 0 :: real]. x = 0)"
    by simp
  note t = spectral_stats_silence_guard [of "[0, 0, 0]" 48000 0 strict_peaks]
  from t h1 h2
  have c1: "calculate_spectral_stats strict_peaks [0, 0, 0] 48000 = Inr zero_spectral_stats"
    by blast
  from t h3
  have c2: "calculate_spectral_stats strict_peaks [0, 0, 0] 48000 = Inr zero_spectral_stats"
    by blast
  from h1 h2 c1 c2 show ?thesis by simp
qed

subsection \<open>All-zero and empty buffers\<close>

lemma fold_max_zeros: "fold max (replicate m 0) (0::real) = 0"
  by (induction m) simp_all

lemma np_max_zeros: "0 < n \<Longrightarrow> np_max (replicate n 0) = Inr 0"
  by (cases n) (simp_all add: fold_max_zeros del: fold_replicate)

lemma np_mean_zeros: "\<forall>x\<in>set xs. x = 0 \<Longrightarrow> np_mean xs = 0"
  by (simp add: np_mean_def sum_list_map_zero [of xs "\<lambda>x. x", simplified])

lemma window_rms_zeros:
  "window_rms_list (replicate n 0) window_size num_windows thr = []"
proof -
  have "sqrt (np_mean (map (\<lambda>x. x\<^sup>2) (slice (replicate n 0) a b))) = 0" for a b
  proof -
    have "\<forall>x\<in>set (map (\<lambda>x. x\<^sup>2) (slice (replicate n (0::real)) a b)). x = 0"
      using slice_zero [of "replicate n 0" a b] by auto
    then show ?thesis by (simp add: np_mean_zeros)
  qed
  then show ?thesis
    using db_to_linear_pos [of thr]
    by (simp add: window_rms_list_def filter_empty_conv not_less [symmetric] less_imp_le)
qed

lemma log_floor: "20 * log 10 (max 0 (1 / 10 ^ 10)) = - 200"
proof -
  have "log 10 ((10::real) ^ 10) = 10"
    using log_pow_cancel [of "10::real" 10] by simp
  then have "log 10 (1 / 10 ^ 10) = - 10"
    by (simp add: log_divide)
  then show ?thesis by simp
qed

text \<open>A non-empty all-zero buffer, at a sample rate of at least 10 Hz, has the neutral
  amplitude statistics: both levels at the floor \<open>20 * log10(1e-10) = -200\<close> dB.\<close>

lemma amplitude_stats_all_zero:
  assumes "0 < n" and "10 \<le> sr"
  shows "calculate_amplitude_stats (replicate n 0) sr thr
    = Inr \<lparr>peak_linear = 0, peak_db = - 200, rms_linear = 0, rms_db = - 200,
           crest_factor_db = 0, dynamic_range_db = 0, dc_offset = 0\<rparr>"
proof -
  have ws: "nat \<lfloor>0.1 * real sr\<rfloor> \<noteq> 0"
    using assms(2) by (simp add: le_floor_iff) 
  have dr: "dynamic_range_of (replicate n 0) sr thr = Inr 0"
    using ws by (simp add: dynamic_range_of_def Let_def window_rms_zeros)
  have m: "np_mean (replicate n 0) = 0" "np_mean (map (\<lambda>x. x\<^sup>2) (replicate n 0)) = 0"
    by (simp_all add: np_mean_zeros)
  show ?thesis
    using log_floor
    by (simp add: calculate_amplitude_stats_def np_max_zeros [OF assms(1)] m dr Let_def)
qed

text \<open>On the empty buffer the spectral analyzer raises as well: \<open>rfft\<close> rejects the
  empty segment before any power is computed.\<close>

lemma spectral_stats_empty_raises: "calculate_spectral_stats find_peaks [] sr = Inl ValueError"
  by (simp add: calculate_spectral_stats_def spectral_spectrum_def spectral_windowed_def
      slice_def np_hanning_def rfft_def and_then_def)

subsection \<open>The buffers behind the per-file statistics\<close>

lemma and_then_Inr_iff: "and_then m f = Inr y \<longleftrightarrow> (\<exists>x. m = Inr x \<and> f x = Inr y)"
  by (cases m) (auto simp: and_then_def)

lemma compare_audio_stages:
  assumes "compare_audio resample find_peaks l1 l2 align trim nrm thr = Inr r"
  shows "\<exists>data1 data2 v d1a d2a.
           compare_resample resample l1 l2 = Inr (data1, data2)
         \<and> compare_align align trim thr data1 data2 (max (snd l1) (snd l2))
               (real (length data2) / real (max (snd l1) (snd l2))) = Inr v
         \<and> compare_normalize nrm (v_data1_aligned v) (v_data2_aligned v) = Inr (d1a, d2a)
         \<and> calculate_amplitude_stats (v_data1 v) (max (snd l1) (snd l2)) thr = Inr (amplitude1 r)
         \<and> calculate_amplitude_stats (v_data2 v) (max (snd l1) (snd l2)) thr = Inr (amplitude2 r)
         \<and> calculate_spectral_stats find_peaks (v_data1 v) (max (snd l1) (snd l2)) = Inr (spectral1 r)
         \<and> calculate_spectral_stats find_peaks (v_data2 v) (max (snd l1) (snd l2)) = Inr (spectral2 r)
         \<and> detect_transients find_peaks (v_data1 v) (max (snd l1) (snd l2)) thr = Inr (timing1 r)
         \<and> detect_transients find_peaks (v_data2 v) (max (snd l1) (snd l2)) thr = Inr (timing2 r)
         \<and> waveform_correlation r = calculate_correlation d1a d2a
         \<and> compare_envelope_correlation d1a d2a (max (snd l1) (snd l2)) = Inr (envelope_correlation r)
         \<and> calculate_spectral_correlation d1a d2a (max (snd l1) (snd l2)) = Inr (spectral_correlation r)
         \<and> aligned r = align
         \<and> alignment_offset_ms r = v_offset_ms v
         \<and> alignment_correlation r = v_align_corr v"
  using assms
  by (auto simp: compare_audio_def Let_def and_then_Inr_iff split: if_splits prod.splits)


text \<open>A run: file 1 is one sample, file 2 is the same sample after one sample of
  silence and followed by one more; both at 200 Hz, aligned and trimmed.\<close>

lemma db_to_linear_minus_60: "db_to_linear (- 60) = 1 / 1000"
  by (simp add: db_to_linear_def powr_minus divide_simps)

lemma trim_run_resample: "compare_resample hold_resample ([1], 200) ([0, 1, 1], 200) = Inr ([1], [0, 1, 1])"
  by (simp add: compare_resample_def and_then_def)

lemma trim_run_offset: "find_alignment_offset_by_transient [1] [0, 1, 1] 200 (Some (- 60)) = Inr (1, 1)"
  unfolding find_alignment_offset_by_transient_def find_first_transient_def db_to_linear_minus_60
  by code_simp

lemma trim_run_align: "compare_align True True (- 60) [1] [0, 1, 1] 200 (3 / 200)
   = Inr \<lparr>v_data1 = [1], v_data2 = [1], v_data1_aligned = [1], v_data2_aligned = [1],
          v_offset_ms = 5, v_align_corr = 1, v_duration2 = 1 / 200\<rparr>"
  by (simp add: compare_align_def trim_run_offset and_then_def slice_def Let_def)

lemma amplitude_stats_unit: "calculate_amplitude_stats [1] 200 (- 60)
   = Inr \<lparr>peak_linear = 1, peak_db = 0, rms_linear = 1, rms_db = 0, crest_factor_db = 0,
          dynamic_range_db = 0, dc_offset = 1\<rparr>"
  by (simp add: calculate_amplitude_stats_def dynamic_range_of_def np_mean_def)

lemma spectral_stats_unit: "calculate_spectral_stats fp [1] 200 = Inr zero_spectral_stats"
  by (simp add: calculate_spectral_stats_def spectral_spectrum_def spectral_windowed_def
      np_hanning_def rfft_def slice_def and_then_def zero_spectral_stats_def)

lemma detect_transients_unit: "detect_transients fp [1] 200 thr
   = Inr \<lparr>first_transient_ms = 0, num_transients = 0, transient_times_ms = []\<rparr>"
  by (simp add: detect_transients_def hop_length_of_def window_length_of_def num_frames_of_def)

lemma correlation_unit: "calculate_correlation [1] [1] = 0"
  by (simp add: calculate_correlation_def pearson_den_def pearson_num_def np_mean_def)

lemma envelope_unit: "calculate_envelope [1] 200 None = Inr [1]"
  by code_simp

lemma envelope_correlation_unit: "compare_envelope_correlation [1] [1] 200 = Inr 0"
  by (simp add: compare_envelope_correlation_def envelope_unit and_then_def correlation_unit)

lemma spectral_correlation_unit: "calculate_spectral_correlation [1] [1] 200 = Inr 0"
  by (simp add: calculate_spectral_correlation_def rfft_def and_then_def calculate_correlation_def
       pearson_den_def pearson_num_def np_mean_def)

lemma envelope_stats_unit: "calculate_envelope_stats [1] 200 (- 60)
   = Inr \<lparr>attack_time_ms = 0, decay_time_ms = 0, sustain_level = 1, release_time_ms = 5\<rparr>"
  unfolding calculate_envelope_stats_def db_to_linear_minus_60
  by code_simp


lemma normalize_unit: "compare_normalize False [1] [1] = Inr ([1], [1])"
  by (simp add: compare_normalize_def)

lemma trim_run:
  "compare_audio hold_resample strict_peaks ([1], 200) ([0, 1, 1], 200) True True False (- 60)
   = Inr \<lparr>sample_rate = 200, duration1_s = 1 / 200, duration2_s = 1 / 200,
          aligned = True, alignment_offset_ms = 5, alignment_correlation = 1,
          amplitude1 = \<lparr>peak_linear = 1, peak_db = 0, rms_linear = 1, rms_db = 0,
                        crest_factor_db = 0, dynamic_range_db = 0, dc_offset = 1\<rparr>,
          amplitude2 = \<lparr>peak_linear = 1, peak_db = 0, rms_linear = 1, rms_db = 0,
                        crest_factor_db = 0, dynamic_range_db = 0, dc_offset = 1\<rparr>,
          spectral1 = zero_spectral_stats, spectral2 = zero_spectral_stats,
          timing1 = \<lparr>first_transient_ms = 0, num_transients = 0, transient_times_ms = []\<rparr>,
          timing2 = \<lparr>first_transient_ms = 0, num_transients = 0, transient_times_ms = []\<rparr>,
          peak_diff_db = 0, rms_diff_db = 0, spectral_centroid_diff_hz = 0,
          waveform_correlation = 0, envelope_correlation = 0, spectral_correlation = 0,
          similarity_score = 400 / 11,
          issues = [LowWaveformCorrelation 0, LowSpectralCorrelation 0,
                    File1DcOffset 1, File2DcOffset 1]\<rparr>"
  by (simp add: compare_audio_def trim_run_resample trim_run_align amplitude_stats_unit spectral_stats_unit detect_transients_unit correlation_unit envelope_correlation_unit spectral_correlation_unit envelope_stats_unit normalize_unit and_then_def Let_def
      calculate_similarity_score_def similarity_scores_def similarity_weights_def
      detect_issues_def zero_spectral_stats_def)


lemma compare_align_inputs:
  assumes "compare_align align trim thr data1 data2 sr duration2 = Inr v"
  shows "v_data1 v = data1
         \<and> (if align
             then \<exists>offset confidence.
                    find_alignment_offset_by_transient data1 data2 sr (Some thr)
                      = Inr (offset, confidence)
                    \<and> v_offset_ms v = (real_of_int offset / real sr) * 1000
                    \<and> v_align_corr v = confidence
                    \<and> v_data2 v =
                        (if trim \<and> 0 < offset
                         then slice data2 (nat offset) (nat offset + length data1) else data2)
             else v_data2 v = data2)"
proof (cases align)
  case False
  with assms show ?thesis
    by (auto simp: compare_align_def Let_def)
next
  case True
  with assms obtain offset confidence where
    f: "find_alignment_offset_by_transient data1 data2 sr (Some thr) = Inr (offset, confidence)"
    by (cases "find_alignment_offset_by_transient data1 data2 sr (Some thr)")
       (auto simp: compare_align_def and_then_def)
  have nz: "sr \<noteq> 0"
  proof
    assume "sr = 0"
    with assms True show False
      by (simp add: compare_align_def and_then_def split: sum.splits prod.splits)
  qed
  have "v_data1 v = data1 \<and> v_offset_ms v = (real_of_int offset / real sr) * 1000
        \<and> v_align_corr v = confidence
        \<and> v_data2 v =
            (if trim \<and> 0 < offset
             then slice data2 (nat offset) (nat offset + length data1) else data2)"
  proof (cases "trim \<and> 0 < offset")
    case True
    with assms \<open>align\<close> nz
    have "v = \<lparr>v_data1 = data1,
               v_data2 = slice data2 (nat offset) (nat offset + length data1),
               v_data1_aligned = v_data1_aligned v, v_data2_aligned = v_data2_aligned v,
               v_offset_ms = (real_of_int offset / real sr) * 1000, v_align_corr = confidence,
               v_duration2 = v_duration2 v\<rparr>"
      by (simp add: compare_align_def and_then_def f Let_def) (erule subst, simp)
    with True show ?thesis
      by (metis views.select_convs(1,2,5,6))
  next
    case False
    with assms \<open>align\<close> nz show ?thesis
      by (cases trim) (auto simp: compare_align_def and_then_def f Let_def)
  qed
  with True f show ?thesis by auto
qed

lemma compare_audio_duration2:
  assumes "compare_audio resample find_peaks l1 l2 align trim nrm thr = Inr r"
  shows "\<exists>data1 data2 v.
           compare_resample resample l1 l2 = Inr (data1, data2)
         \<and> compare_align align trim thr data1 data2 (max (snd l1) (snd l2))
               (real (length data2) / real (max (snd l1) (snd l2))) = Inr v
         \<and> duration2_s r = v_duration2 v"
  using assms
  by (auto simp: compare_audio_def Let_def and_then_Inr_iff split: if_splits prod.splits)

lemma compare_align_duration2:
  assumes "compare_align align True thr data1 data2 sr (real (length data2) / real sr) = Inr v"
  shows "v_duration2 v = real (length (v_data2 v)) / real sr"
proof (cases align)
  case False
  with assms show ?thesis
    by (auto simp: compare_align_def Let_def)
next
  case True
  with assms obtain offset confidence where
    f: "find_alignment_offset_by_transient data1 data2 sr (Some thr) = Inr (offset, confidence)"
    by (cases "find_alignment_offset_by_transient data1 data2 sr (Some thr)")
       (auto simp: compare_align_def and_then_def)
  have nz: "sr \<noteq> 0"
  proof
    assume "sr = 0"
    with assms True show False
      by (simp add: compare_align_def and_then_def split: sum.splits prod.splits)
  qed
  show ?thesis
  proof (cases "0 < offset")
    case True
    with assms \<open>align\<close> nz show ?thesis
      by (auto simp: compare_align_def and_then_def f Let_def)
  next
    case False
    with assms \<open>align\<close> nz show ?thesis
      by (auto simp: compare_align_def and_then_def f Let_def)
  qed
qed


text \<open>
  C1, amended. With trim enabled, the amplitude, spectral and timing statistics of
  file 1 are computed on its unaligned, untrimmed buffer. Those of file 2 are computed
  on its unaligned, untrimmed buffer when alignment is off or the estimated offset is
  not positive, and on \<open>data2[offset : offset + len(data1)]\<close> when alignment is on and
  the offset is positive; the duration reported for file 2 is that of the buffer its
  statistics are computed on.
\<close>

theorem trim_per_file_inputs:
  assumes "compare_resample resample l1 l2 = Inr (data1, data2)"
    and "compare_audio resample find_peaks l1 l2 align True nrm thr = Inr r"
    and "sr = max (snd l1) (snd l2)"
  shows "\<exists>stats2.
           calculate_amplitude_stats data1 sr thr = Inr (amplitude1 r)
         \<and> calculate_spectral_stats find_peaks data1 sr = Inr (spectral1 r)
         \<and> detect_transients find_peaks data1 sr thr = Inr (timing1 r)
         \<and> calculate_amplitude_stats stats2 sr thr = Inr (amplitude2 r)
         \<and> calculate_spectral_stats find_peaks stats2 sr = Inr (spectral2 r)
         \<and> detect_transients find_peaks stats2 sr thr = Inr (timing2 r)
         \<and> duration2_s r = real (length stats2) / real sr
         \<and> (if align
              then \<exists>offset confidence.
                     find_alignment_offset_by_transient data1 data2 sr (Some thr)
                       = Inr (offset, confidence)
                     \<and> stats2 =
                         (if 0 < offset
                          then slice data2 (nat offset) (nat offset + length data1) else data2)
              else stats2 = data2)"
proof -
  from compare_audio_stages [OF assms(2)] assms(1,3)
  obtain v where
    al: "compare_align align True thr data1 data2 sr (real (length data2) / real sr) = Inr v"
    and st: "calculate_amplitude_stats (v_data1 v) sr thr = Inr (amplitude1 r)"
      "calculate_amplitude_stats (v_data2 v) sr thr = Inr (amplitude2 r)"
      "calculate_spectral_stats find_peaks (v_data1 v) sr = Inr (spectral1 r)"
      "calculate_spectral_stats find_peaks (v_data2 v) sr = Inr (spectral2 r)"
      "detect_transients find_peaks (v_data1 v) sr thr = Inr (timing1 r)"
      "detect_transients find_peaks (v_data2 v) sr thr = Inr (timing2 r)"
    by auto
  from compare_audio_duration2 [OF assms(2)] assms(1,3) al
  have "duration2_s r = v_duration2 v"
    by auto
  with compare_align_duration2 [OF al]
  have du: "duration2_s r = real (length (v_data2 v)) / real sr"
    by simp
  from compare_align_inputs [OF al]
  have d1: "v_data1 v = data1"
    and d2: "if align
             then \<exists>offset confidence.
                    find_alignment_offset_by_transient data1 data2 sr (Some thr)
                      = Inr (offset, confidence)
                    \<and> v_data2 v =
                        (if 0 < offset
                         then slice data2 (nat offset) (nat offset + length data1) else data2)
             else v_data2 v = data2"
    by (auto split: if_splits)
  show ?thesis
    using st du d2 unfolding d1 by (intro exI [of _ "v_data2 v"]) simp
qed

text \<open>
  C1, as stated, fails: in the run above the offset is 1, and the DC offset reported
  for file 2 is 1, the mean of the cut buffer \<open>[1]\<close>, while the mean of file 2's
  original buffer \<open>[0, 1, 1]\<close> is 2/3.
\<close>

theorem trim_changes_file2_stats_counterexample:
  "map_sum id (\<lambda>r. dc_offset (amplitude2 r))
     (compare_audio hold_resample strict_peaks ([1], 200) ([0, 1, 1], 200) True True False (- 60))
     = Inr 1
   \<and> map_sum id dc_offset (calculate_amplitude_stats [0, 1, 1] 200 (- 60)) = Inr (2 / 3)"
  by (simp add: trim_run calculate_amplitude_stats_def dynamic_range_of_def np_mean_def Let_def)

theorem trim_per_file_inputs_witness:
  "compare_resample hold_resample ([1], 200) ([0, 1, 1], 200) = Inr ([1], [0, 1, 1])
   \<and> (\<exists>r. compare_audio hold_resample strict_peaks ([1], 200) ([0, 1, 1], 200)
               True True False (- 60) = Inr r
          \<and> calculate_amplitude_stats [1] 200 (- 60) = Inr (amplitude1 r)
          \<and> calculate_amplitude_stats (slice [0, 1, 1] 1 2) 200 (- 60) = Inr (amplitude2 r)
          \<and> duration2_s r = real (length (slice [0, 1, 1 :: real] 1 2)) / real (200::nat)
          \<and> duration2_s r = 1 / 200)
   \<and> find_alignment_offset_by_transient [1] [0, 1, 1] 200 (Some (- 60)) = Inr (1, 1)"
proof -
  obtain r where r: "compare_audio hold_resample strict_peaks ([1], 200) ([0, 1, 1], 200)
                       True True False (- 60) = Inr r"
    using trim_run by blast
  have sr: "(200::nat) = max (snd ([1::real], 200::nat)) (snd ([0, 1, 1::real], 200::nat))"
    by simp
  from trim_per_file_inputs [OF trim_run_resample r sr]
  obtain stats2 where
    a1: "calculate_amplitude_stats [1] 200 (- 60) = Inr (amplitude1 r)"
    and a2: "calculate_amplitude_stats stats2 200 (- 60) = Inr (amplitude2 r)"
    and du: "duration2_s r = real (length stats2) / real (200::nat)"
    and s2: "\<exists>offset confidence.
               find_alignment_offset_by_transient [1] [0, 1, 1] 200 (Some (- 60))
                 = Inr (offset, confidence)
               \<and> stats2 = (if 0 < offset then slice [0, 1, 1] (nat offset) (nat offset + length [1::real])
                              else [0, 1, 1])"
    by auto
  from s2 have s: "stats2 = slice [0, 1, 1] 1 2"
    unfolding trim_run_offset by (simp add: numeral_2_eq_2)
  from du have "duration2_s r = 1 / 200"
    unfolding s by (simp add: slice_def)
  with a1 a2 du r trim_run_resample trim_run_offset show ?thesis
    unfolding s by blast
qed

subsection \<open>Runs of the whole comparison on short buffers\<close>

lemma compare_audio_result:
  assumes "compare_resample resample l1 l2 = Inr (data1, data2)"
    and "sr = max (snd l1) (snd l2)" and "0 < sr"
    and "compare_align align trim thr data1 data2 sr (real (length data2) / real sr) = Inr v"
    and "compare_normalize nrm (v_data1_aligned v) (v_data2_aligned v) = Inr (d1a, d2a)"
    and "calculate_amplitude_stats (v_data1 v) sr thr = Inr a1"
    and "calculate_amplitude_stats (v_data2 v) sr thr = Inr a2"
    and "calculate_spectral_stats find_peaks (v_data1 v) sr = Inr s1"
    and "calculate_spectral_stats find_peaks (v_data2 v) sr = Inr s2"
    and "detect_transients find_peaks (v_data1 v) sr thr = Inr t1"
    and "detect_transients find_peaks (v_data2 v) sr thr = Inr t2"
    and "compare_envelope_correlation d1a d2a sr = Inr ec"
    and "calculate_spectral_correlation d1a d2a sr = Inr sc"
    and "calculate_envelope_stats (v_data1 v) sr thr = Inr es1"
    and "calculate_envelope_stats (v_data2 v) sr thr = Inr es2"
  shows "\<exists>r. compare_audio resample find_peaks l1 l2 align trim nrm thr = Inr r
             \<and> alignment_offset_ms r = v_offset_ms v
             \<and> alignment_correlation r = v_align_corr v
             \<and> envelope_correlation r = ec"
  using assms(3)
  unfolding compare_audio_def Let_def assms(2) [symmetric] assms(1) and_then_def
  by (simp add: assms(4-))

lemma amplitude_stats_short:
  "data \<noteq> [] \<Longrightarrow> length data < 20 \<Longrightarrow> \<exists>a. calculate_amplitude_stats data 200 thr = Inr a"
  by (cases data) (simp_all add: calculate_amplitude_stats_def dynamic_range_of_def Let_def)

lemma detect_transients_short:
  assumes "length data < 5"
  shows "detect_transients fp data 200 thr
           = Inr \<lparr>first_transient_ms = 0, num_transients = 0, transient_times_ms = []\<rparr>"
proof -
  have h: "hop_length_of 200 = 2" and w: "window_length_of 200 = 5"
    by (simp_all add: hop_length_of_def window_length_of_def)
  have "num_frames_of data 200 \<le> 0"
    using assms unfolding num_frames_of_def h w by simp
  then show ?thesis
    by (simp add: detect_transients_def h Let_def)
qed

lemma envelope_stats_ok: "\<exists>s. calculate_envelope_stats data 200 thr = Inr s"
proof -
  have "nat \<lfloor>5 * real 200 / 1000\<rfloor> = 1" by simp
  then obtain e where e: "calculate_envelope data 200 (Some 5) = Inr e"
    by (simp add: calculate_envelope_def maximum_filter1d_def uniform_filter1d_def stride_def
      and_then_def Let_def)
  show ?thesis
    by (simp add: calculate_envelope_stats_def e and_then_def Let_def)
qed


lemma rfft_ok: "x \<noteq> [] \<Longrightarrow> \<exists>bins. rfft x = Inr bins"
  by (simp add: rfft_def Let_def)

lemma spectral_stats_ok:
  assumes "data \<noteq> []" and "0 < sr"
  shows "\<exists>s. calculate_spectral_stats find_peaks data sr = Inr s"
proof -
  have "length (spectral_windowed data sr) > 0"
    using assms by (simp add: spectral_windowed_length)
  then have "spectral_windowed data sr \<noteq> []" by auto
  then obtain bins where b: "rfft (spectral_windowed data sr) = Inr bins"
    using rfft_ok by blast
  let ?spectrum = "tl (map cmod bins)"
  have sp: "spectral_spectrum data sr = Inr ?spectrum"
    by (simp add: spectral_spectrum_def b and_then_def)
  show ?thesis
  proof (cases "sum_list (map (\<lambda>s. s\<^sup>2) ?spectrum) < 1 / 10 ^ 10")
    case True
    then show ?thesis
      by (simp add: calculate_spectral_stats_def sp and_then_def Let_def)
  next
    case False
    then have "?spectrum \<noteq> []" by auto
    then obtain m where m: "np_max ?spectrum = Inr m"
      using np_max_nonempty by blast
    from False show ?thesis
      by (simp add: calculate_spectral_stats_def sp and_then_def Let_def m)
  qed
qed

lemma spectral_correlation_ok:
  assumes "a \<noteq> []" and "b \<noteq> []" and "0 < sr"
  shows "\<exists>c. calculate_spectral_correlation a b sr = Inr c"
proof -
  let ?n = "min (min (length a) (length b)) sr"
  have "0 < ?n" using assms by (cases a; cases b) simp_all
  then have "take ?n a \<noteq> []" "take ?n b \<noteq> []"
    using assms by auto
  then obtain b1 b2 where "rfft (take ?n a) = Inr b1" "rfft (take ?n b) = Inr b2"
    using rfft_ok by blast
  then show ?thesis
    by (simp add: calculate_spectral_correlation_def Let_def and_then_def)
qed

lemma envelope_correlation_ok:
  "\<exists>c e1 e2. calculate_envelope a 200 None = Inr e1 \<and> calculate_envelope b 200 None = Inr e2
     \<and> compare_envelope_correlation a b 200 = Inr c \<and> c = calculate_correlation e1 e2"
proof -
  have w: "nat \<lfloor>10 * real 200 / 1000\<rfloor> = 2" by simp
  obtain e1 where e1: "calculate_envelope a 200 None = Inr e1"
    by (simp add: calculate_envelope_def maximum_filter1d_def uniform_filter1d_def stride_def
      and_then_def Let_def w)
  obtain e2 where e2: "calculate_envelope b 200 None = Inr e2"
    by (simp add: calculate_envelope_def maximum_filter1d_def uniform_filter1d_def stride_def
      and_then_def Let_def w)
  show ?thesis
    by (simp add: compare_envelope_correlation_def e1 e2 and_then_def)
qed


lemma short_run_completes:
  assumes al: "compare_align align trim thr d1 d2 200 (real (length d2) / real 200) = Inr v"
    and ne: "v_data1 v \<noteq> []" "v_data2 v \<noteq> []"
            "v_data1_aligned v \<noteq> []" "v_data2_aligned v \<noteq> []"
    and short: "length (v_data1 v) < 5" "length (v_data2 v) < 5"
  shows "\<exists>r e1 e2.
           compare_audio hold_resample strict_peaks (d1, 200) (d2, 200) align trim False thr = Inr r
         \<and> alignment_offset_ms r = v_offset_ms v
         \<and> calculate_envelope (v_data1_aligned v) 200 None = Inr e1
         \<and> calculate_envelope (v_data2_aligned v) 200 None = Inr e2
         \<and> envelope_correlation r = calculate_correlation e1 e2"
proof -
  have rs: "compare_resample hold_resample (d1, 200) (d2, 200) = Inr (d1, d2)"
    by (simp add: compare_resample_def and_then_def)
  have sr: "(200::nat) = max (snd (d1, 200::nat)) (snd (d2, 200::nat))" and pos: "(0::nat) < 200"
    by simp_all
  have nm: "compare_normalize False (v_data1_aligned v) (v_data2_aligned v)
              = Inr (v_data1_aligned v, v_data2_aligned v)"
    by (simp add: compare_normalize_def)
  have l20: "length (v_data1 v) < 20" "length (v_data2 v) < 20"
    using short by simp_all
  obtain a1 where a1: "calculate_amplitude_stats (v_data1 v) 200 thr = Inr a1"
    using amplitude_stats_short [OF ne(1) l20(1)] by blast
  obtain a2 where a2: "calculate_amplitude_stats (v_data2 v) 200 thr = Inr a2"
    using amplitude_stats_short [OF ne(2) l20(2)] by blast
  obtain s1 where s1: "calculate_spectral_stats strict_peaks (v_data1 v) 200 = Inr s1"
    using spectral_stats_ok [OF ne(1) pos] by blast
  obtain s2 where s2: "calculate_spectral_stats strict_peaks (v_data2 v) 200 = Inr s2"
    using spectral_stats_ok [OF ne(2) pos] by blast
  note t = detect_transients_short [OF short(1), of strict_peaks thr]
           detect_transients_short [OF short(2), of strict_peaks thr]
  obtain c e1 e2 where e: "calculate_envelope (v_data1_aligned v) 200 None = Inr e1"
      "calculate_envelope (v_data2_aligned v) 200 None = Inr e2"
      "compare_envelope_correlation (v_data1_aligned v) (v_data2_aligned v) 200 = Inr c"
      "c = calculate_correlation e1 e2"
    using envelope_correlation_ok by blast
  obtain sc where sc: "calculate_spectral_correlation (v_data1_aligned v) (v_data2_aligned v) 200 = Inr sc"
    using spectral_correlation_ok [OF ne(3,4) pos] by blast
  obtain es1 where es1: "calculate_envelope_stats (v_data1 v) 200 thr = Inr es1"
    using envelope_stats_ok by blast
  obtain es2 where es2: "calculate_envelope_stats (v_data2 v) 200 thr = Inr es2"
    using envelope_stats_ok by blast
  from compare_audio_result [OF rs sr pos al nm a1 a2 s1 s2 t e(3) sc es1 es2]
  obtain r where "compare_audio hold_resample strict_peaks (d1, 200) (d2, 200) align trim False thr = Inr r"
    "alignment_offset_ms r = v_offset_ms v" "envelope_correlation r = c"
    by blast
  with e show ?thesis by blast
qed


subsection \<open>The threshold of the transient alignment\<close>

lemma find_alignment_offset_value:
  assumes "find_alignment_offset_by_transient ref target sr arg = Inr (offset, confidence)"
  shows "offset = int (find_first_transient target sr (case arg of None \<Rightarrow> - 40 | Some d \<Rightarrow> d))
                  - int (find_first_transient ref sr (case arg of None \<Rightarrow> - 40 | Some d \<Rightarrow> d))"
  using assms
  by (auto simp: find_alignment_offset_by_transient_def Let_def split: sum.splits)

text \<open>
  C3, amended. In a comparison with alignment enabled the transient strategy is called
  with the comparison's silence threshold: the reported offset is the difference of the
  first samples of the two buffers that exceed \<open>10 ** (silence_threshold_db / 20)\<close>.
  The value -40 dB is only what the strategy uses when it is called without a
  threshold.
\<close>

theorem alignment_threshold_is_silence_threshold:
  assumes "compare_resample resample l1 l2 = Inr (data1, data2)"
    and "compare_audio resample find_peaks l1 l2 True trim nrm thr = Inr r"
    and "sr = max (snd l1) (snd l2)"
  shows "(\<exists>confidence.
            find_alignment_offset_by_transient data1 data2 sr (Some thr)
              = Inr (int (find_first_transient data2 sr thr) - int (find_first_transient data1 sr thr),
                     confidence)
            \<and> alignment_correlation r = confidence)
         \<and> alignment_offset_ms r
             = (real_of_int (int (find_first_transient data2 sr thr)
                             - int (find_first_transient data1 sr thr)) / real sr) * 1000
         \<and> find_alignment_offset_by_transient data1 data2 sr None
             = find_alignment_offset_by_transient data1 data2 sr (Some (- 40))"
proof -
  from compare_audio_stages [OF assms(2)] assms(1,3)
  obtain v where
    al: "compare_align True trim thr data1 data2 sr (real (length data2) / real sr) = Inr v"
    and r: "alignment_offset_ms r = v_offset_ms v" "alignment_correlation r = v_align_corr v"
    by auto
  from compare_align_inputs [OF al]
  obtain offset confidence where
    f: "find_alignment_offset_by_transient data1 data2 sr (Some thr) = Inr (offset, confidence)"
    and v: "v_offset_ms v = (real_of_int offset / real sr) * 1000" "v_align_corr v = confidence"
    by auto
  from find_alignment_offset_value [OF f]
  have o: "offset = int (find_first_transient data2 sr thr) - int (find_first_transient data1 sr thr)"
    by simp
  have d: "find_alignment_offset_by_transient data1 data2 sr None
             = find_alignment_offset_by_transient data1 data2 sr (Some (- 40))"
    by (simp add: find_alignment_offset_by_transient_def)
  from f r v d show ?thesis
    unfolding o by simp
qed

text \<open>A run: file 1 is one full-scale sample, file 2 a sample of 0.005 (between the
  -60 dB and the -40 dB level) and then a full-scale sample; both at 200 Hz.\<close>

lemma quiet_run_offset_60:
  "find_alignment_offset_by_transient [1] [1 / 200, 1] 200 (Some (- 60)) = Inr (0, 1)"
  unfolding find_alignment_offset_by_transient_def find_first_transient_def db_to_linear_minus_60
  by code_simp

lemma quiet_run_offset_40:
  "find_alignment_offset_by_transient [1] [1 / 200, 1] 200 (Some (- 40)) = Inr (1, 1)"
  unfolding find_alignment_offset_by_transient_def find_first_transient_def db_to_linear_minus_40
  by code_simp

lemma quiet_run_offset_default:
  "find_alignment_offset_by_transient [1] [1 / 200, 1] 200 None = Inr (1, 1)"
  unfolding find_alignment_offset_by_transient_def find_first_transient_def option.case
    db_to_linear_minus_40
  by code_simp

lemma quiet_run_align_60:
  "compare_align True False (- 60) [1] [1 / 200, 1] 200 (real (length [1 / 200, 1 :: real]) / real 200)
   = Inr \<lparr>v_data1 = [1], v_data2 = [1 / 200, 1], v_data1_aligned = [1],
          v_data2_aligned = [1 / 200], v_offset_ms = 0, v_align_corr = 1,
          v_duration2 = 1 / 100\<rparr>"
  by (simp add: compare_align_def quiet_run_offset_60 and_then_def Let_def)

lemma quiet_run_align_40:
  "compare_align True False (- 40) [1] [1 / 200, 1] 200 (real (length [1 / 200, 1 :: real]) / real 200)
   = Inr \<lparr>v_data1 = [1], v_data2 = [1 / 200, 1], v_data1_aligned = [1],
          v_data2_aligned = [1], v_offset_ms = 5, v_align_corr = 1,
          v_duration2 = 1 / 100\<rparr>"
  by (simp add: compare_align_def quiet_run_offset_40 and_then_def Let_def)

lemma quiet_run_60:
  "\<exists>r. compare_audio hold_resample strict_peaks ([1], 200) ([1 / 200, 1], 200)
          True False False (- 60) = Inr r
       \<and> alignment_offset_ms r = 0"
  using short_run_completes [OF quiet_run_align_60] by auto

lemma quiet_run_40:
  "\<exists>r. compare_audio hold_resample strict_peaks ([1], 200) ([1 / 200, 1], 200)
          True False False (- 40) = Inr r
       \<and> alignment_offset_ms r = 5"
  using short_run_completes [OF quiet_run_align_40] by auto

text \<open>
  C3, as stated, fails: in the run above a threshold of -40 dB puts the first transient
  of file 2 at its second sample (offset 1, that is 5 ms), but the comparison with the
  silence threshold at -60 dB reports the offset 0, and reports 5 ms only once the
  silence threshold itself is set to -40 dB.
\<close>

theorem alignment_threshold_counterexample:
  "map_sum id alignment_offset_ms
     (compare_audio hold_resample strict_peaks ([1], 200) ([1 / 200, 1], 200)
        True False False (- 60)) = Inr 0
   \<and> map_sum id alignment_offset_ms
     (compare_audio hold_resample strict_peaks ([1], 200) ([1 / 200, 1], 200)
        True False False (- 40)) = Inr 5
   \<and> find_alignment_offset_by_transient [1] [1 / 200, 1] 200 None = Inr (1, 1)"
  using quiet_run_60 quiet_run_40 quiet_run_offset_default by auto

theorem alignment_threshold_is_silence_threshold_witness:
  "compare_resample hold_resample ([1], 200) ([1 / 200, 1], 200) = Inr ([1], [1 / 200, 1])
   \<and> (\<exists>r. compare_audio hold_resample strict_peaks ([1], 200) ([1 / 200, 1], 200)
               True False False (- 60) = Inr r
          \<and> alignment_offset_ms r
              = (real_of_int (int (find_first_transient [1 / 200, 1] 200 (- 60))
                              - int (find_first_transient [1] 200 (- 60))) / real 200) * 1000
          \<and> alignment_offset_ms r = 0)"
proof -
  have rs: "compare_resample hold_resample ([1], 200) ([1 / 200, 1], 200) = Inr ([1], [1 / 200, 1])"
    by (simp add: compare_resample_def and_then_def)
  have sr: "(200::nat) = max (snd ([1::real], 200::nat)) (snd ([1 / 200, 1::real], 200::nat))"
    by simp
  obtain r where r: "compare_audio hold_resample strict_peaks ([1], 200) ([1 / 200, 1], 200)
               True False False (- 60) = Inr r" and z: "alignment_offset_ms r = 0"
    using quiet_run_60 by blast
  from alignment_threshold_is_silence_threshold [OF rs r sr]
  have "alignment_offset_ms r
              = (real_of_int (int (find_first_transient [1 / 200, 1] 200 (- 60))
                              - int (find_first_transient [1] 200 (- 60))) / real 200) * 1000"
    by blast
  with rs r z show ?thesis by blast
qed


subsection \<open>The window of the envelope correlation\<close>

lemma correlation_self_one:
  assumes "1 / 10 ^ 10 \<le> pearson_den a a"
  shows "calculate_correlation a a = 1"
proof -
  have pos: "0 < pearson_den a a"
    by (rule less_le_trans [OF _ assms]) simp
  have ne: "a \<noteq> []"
    using pos by (auto simp: pearson_den_def)
  have eq: "pearson_num a a = pearson_den a a"
    by (simp add: pearson_num_self pearson_den_self)
  show ?thesis
    using assms pos ne eq by (simp add: calculate_correlation_def Let_def)
qed

lemma calculate_envelope_default:
  "calculate_envelope data sr None = calculate_envelope data sr (Some 10)"
  by (simp add: calculate_envelope_def)

text \<open>
  C5, amended. The envelope correlation of a comparison is the Pearson correlation of
  the envelopes of the two aligned (and, when requested, normalised) views, each
  extracted with the envelope function's default window of 10 ms.
\<close>

theorem envelope_correlation_window:
  assumes "compare_audio resample find_peaks l1 l2 align trim nrm thr = Inr r"
    and "sr = max (snd l1) (snd l2)"
  shows "\<exists>data1 data2 v d1a d2a env1 env2.
           compare_resample resample l1 l2 = Inr (data1, data2)
         \<and> compare_align align trim thr data1 data2 sr (real (length data2) / real sr) = Inr v
         \<and> compare_normalize nrm (v_data1_aligned v) (v_data2_aligned v) = Inr (d1a, d2a)
         \<and> calculate_envelope d1a sr (Some 10) = Inr env1
         \<and> calculate_envelope d2a sr (Some 10) = Inr env2
         \<and> envelope_correlation r = calculate_correlation env1 env2"
proof -
  from compare_audio_stages [OF assms(1)] assms(2)
  obtain data1 data2 v d1a d2a where
    st: "compare_resample resample l1 l2 = Inr (data1, data2)"
      "compare_align align trim thr data1 data2 sr (real (length data2) / real sr) = Inr v"
      "compare_normalize nrm (v_data1_aligned v) (v_data2_aligned v) = Inr (d1a, d2a)"
    and ec: "compare_envelope_correlation d1a d2a sr = Inr (envelope_correlation r)"
    by auto
  from ec obtain env1 env2 where
    e: "calculate_envelope d1a sr None = Inr env1" "calculate_envelope d2a sr None = Inr env2"
      "envelope_correlation r = calculate_correlation env1 env2"
    by (auto simp: compare_envelope_correlation_def and_then_Inr_iff)
  from st e show ?thesis
    unfolding calculate_envelope_default by blast
qed

text \<open>A run: both files are the same four samples, a unit impulse and three zeros, at
  200 Hz, compared without alignment.\<close>

lemma impulse_run_align:
  "compare_align False False (- 60) [1, 0, 0, 0] [1, 0, 0, 0] 200
     (real (length [1, 0, 0, 0 :: real]) / real 200)
   = Inr \<lparr>v_data1 = [1, 0, 0, 0], v_data2 = [1, 0, 0, 0], v_data1_aligned = [1, 0, 0, 0],
          v_data2_aligned = [1, 0, 0, 0], v_offset_ms = 0, v_align_corr = 0,
          v_duration2 = 1 / 50\<rparr>"
  by (simp add: compare_align_def Let_def)

lemma impulse_envelope_10: "calculate_envelope [1, 0, 0, 0] 200 None = Inr [1, 1 / 2]"
  by code_simp

lemma impulse_envelope_20: "calculate_envelope [1, 0, 0, 0] 200 (Some 20) = Inr [1]"
  by code_simp

lemma impulse_envelope_correlation: "calculate_correlation [1, 1 / 2] [1, 1 / 2] = 1"
proof -
  have "pearson_den [1, 1 / 2] [1, 1 / 2] = 1 / 8"
    by (simp add: pearson_den_self np_mean_def power2_eq_square)
  then show ?thesis
    by (intro correlation_self_one) simp
qed

lemma impulse_run:
  "\<exists>r. compare_audio hold_resample strict_peaks ([1, 0, 0, 0], 200) ([1, 0, 0, 0], 200)
          False False False (- 60) = Inr r
       \<and> envelope_correlation r = 1"
  using short_run_completes [OF impulse_run_align]
  by (auto simp: impulse_envelope_10 impulse_envelope_correlation)

text \<open>
  C5, as stated, fails: in the run above the reported envelope correlation is 1, the
  correlation of the 10 ms envelopes \<open>[1, 1/2]\<close>; the 20 ms envelope of either view
  is the single value \<open>[1]\<close>, and the Pearson correlation of that with itself is 0.
\<close>

theorem envelope_window_counterexample:
  "map_sum id envelope_correlation
     (compare_audio hold_resample strict_peaks ([1, 0, 0, 0], 200) ([1, 0, 0, 0], 200)
        False False False (- 60)) = Inr 1
   \<and> calculate_envelope [1, 0, 0, 0] 200 (Some 20) = Inr [1]
   \<and> calculate_correlation [1] [1] = 0"
  using impulse_run impulse_envelope_20 correlation_unit by auto

theorem envelope_correlation_window_witness:
  "\<exists>r. compare_audio hold_resample strict_peaks ([1, 0, 0, 0], 200) ([1, 0, 0, 0], 200)
          False False False (- 60) = Inr r
       \<and> calculate_envelope [1, 0, 0, 0] 200 (Some 10) = Inr [1, 1 / 2]
       \<and> envelope_correlation r = calculate_correlation [1, 1 / 2] [1, 1 / 2]"
proof -
  obtain r where r: "compare_audio hold_resample strict_peaks ([1, 0, 0, 0], 200)
                       ([1, 0, 0, 0], 200) False False False (- 60) = Inr r"
    using impulse_run by blast
  have sr: "(200::nat) = max (snd ([1, 0, 0, 0 :: real], 200::nat)) (snd ([1, 0, 0, 0 :: real], 200::nat))"
    by simp
  have rs: "compare_resample hold_resample ([1, 0, 0, 0], 200) ([1, 0, 0, 0], 200)
              = Inr ([1, 0, 0, 0], [1, 0, 0, 0])"
    by (simp add: compare_resample_def and_then_def)
  have env: "calculate_envelope [1, 0, 0, 0] 200 (Some 10) = Inr [1, 1 / 2]"
    using impulse_envelope_10 by (simp add: calculate_envelope_default)
  from envelope_correlation_window [OF r sr]
  obtain data1 data2 v d1a d2a env1 env2 where
    t: "compare_resample hold_resample ([1, 0, 0, 0], 200) ([1, 0, 0, 0], 200) = Inr (data1, data2)"
      "compare_align False False (- 60) data1 data2 200 (real (length data2) / real 200) = Inr v"
      "compare_normalize False (v_data1_aligned v) (v_data2_aligned v) = Inr (d1a, d2a)"
      "calculate_envelope d1a 200 (Some 10) = Inr env1"
      "calculate_envelope d2a 200 (Some 10) = Inr env2"
      "envelope_correlation r = calculate_correlation env1 env2"
    by blast
  from t(1) have d: "data1 = [1, 0, 0, 0]" "data2 = [1, 0, 0, 0]"
    unfolding rs by auto
  from t(2) have v: "v_data1_aligned v = [1, 0, 0, 0]" "v_data2_aligned v = [1, 0, 0, 0]"
    unfolding d impulse_run_align by auto
  from t(3) have a: "d1a = [1, 0, 0, 0]" "d2a = [1, 0, 0, 0]"
    unfolding v by (auto simp: compare_normalize_def)
  from t(4,5) have "env1 = [1, 1 / 2]" "env2 = [1, 1 / 2]"
    unfolding a env by auto
  with t(6) have "envelope_correlation r = calculate_correlation [1, 1 / 2] [1, 1 / 2]"
    by simp
  with r env show ?thesis by blast
qed

subsection \<open>Transient count and transient times\<close>

text \<open>
  C10. When the detector reaches peak picking, the reported transient count is the
  number of peaks found in the onset strength, whatever that number is, and the
  reported times are the first 20 of the peak times; with more than 20 peaks the time
  list has 20 entries and the count is strictly larger.
\<close>

theorem transient_count_not_capped:
  assumes "detect_transients find_peaks data sr threshold_db = Inr t"
    and "0 < num_frames_of data sr"
    and "detect_onset_strength data sr = Inr onset_strength"
  shows "(let peaks = find_peaks onset_strength 0.1 (Some (max 1 (min_distance_of sr)))
          in num_transients t = length peaks
             \<and> transient_times_ms t
                 = take 20 (map (\<lambda>p. (real p * real (hop_length_of sr) / real sr) * 1000) peaks)
             \<and> (20 < length peaks \<longrightarrow>
                   length (transient_times_ms t) = 20
                   \<and> length (transient_times_ms t) < num_transients t))"
  using assms
  by (auto simp: detect_transients_def Let_def and_then_def split: if_splits)

text \<open>A run: 21 unit impulses, 50 ms apart, at a sample rate of 100 Hz.\<close>

lemma impulse_train_frames: "0 < num_frames_of (concat (replicate 21 [0, 0, 0, 1, 0])) 100"
  by code_simp

lemma impulse_train_onset:
  "detect_onset_strength (concat (replicate 21 [0, 0, 0, 1, 0])) 100
     = Inr (concat (replicate 20 [0, 1, 0, 0, 0]) @ [0, 1, 0])"
  by code_simp

lemma impulse_train_peaks:
  "strict_peaks (concat (replicate 20 [0, 1, 0, 0, 0]) @ [0, 1, 0]) 0.1 (Some (max 1 (min_distance_of 100)))
    = [1, 6, 11, 16, 21, 26, 31, 36, 41, 46, 51, 56, 61, 66, 71, 76, 81, 86, 91, 96, 101]"
  by code_simp

lemma impulse_train_transients:
  "detect_transients strict_peaks (concat (replicate 21 [0, 0, 0, 1, 0])) 100 (- 40)
   = Inr \<lparr>first_transient_ms = 30, num_transients = 21,
          transient_times_ms = [10, 60, 110, 160, 210, 260, 310, 360, 410, 460,
                                510, 560, 610, 660, 710, 760, 810, 860, 910, 960]\<rparr>"
  unfolding detect_transients_def db_to_linear_minus_40
  by code_simp

theorem transient_count_not_capped_witness:
  "detect_transients strict_peaks (concat (replicate 21 [0, 0, 0, 1, 0])) 100 (- 40)
   = Inr \<lparr>first_transient_ms = 30, num_transients = 21,
          transient_times_ms = [10, 60, 110, 160, 210, 260, 310, 360, 410, 460,
                                510, 560, 610, 660, 710, 760, 810, 860, 910, 960]\<rparr>
   \<and> 0 < num_frames_of (concat (replicate 21 [0, 0, 0, 1, 0])) 100
   \<and> detect_onset_strength (concat (replicate 21 [0, 0, 0, 1, 0])) 100
       = Inr (concat (replicate 20 [0, 1, 0, 0, 0]) @ [0, 1, 0])
   \<and> length (strict_peaks (concat (replicate 20 [0, 1, 0, 0, 0]) @ [0, 1, 0]) 0.1
                 (Some (max 1 (min_distance_of 100)))) = 21"
  using transient_count_not_capped
          [OF impulse_train_transients impulse_train_frames impulse_train_onset]
        impulse_train_transients impulse_train_frames impulse_train_onset
  by (simp add: Let_def impulse_train_peaks)

end
